theory Spec2Isabelle
  imports Complex_Main "HOL-Library.Word"
begin

section \<open>JavaScript strings\<close>

text \<open>
  A JavaScript string is a sequence of 16-bit code units. String constants of the
  source that are plain ASCII are written with \<open>ascii\<close>; the few constants with a
  symbol outside ASCII give its code unit as a number.
\<close>

type_synonym jsstring = "16 word list"

definition ascii :: "string \<Rightarrow> jsstring" where
  "ascii s = map (\<lambda>c. of_nat (of_char c)) s"

text \<open>
  \<open>String.prototype.trim\<close> removes the WhiteSpace and LineTerminator code points
  of ECMAScript from both ends: TAB, LF, VT, FF, CR, SPACE, NBSP, U+1680,
  U+2000..U+200A, U+2028, U+2029, U+202F, U+205F, U+3000 and U+FEFF. All of them are
  single code units.
\<close>

definition is_ws :: "16 word \<Rightarrow> bool" where
  "is_ws c =
     (c \<in> set [0x9, 0xA, 0xB, 0xC, 0xD, 0x20, 0xA0, 0x1680, 0x2028, 0x2029, 0x202F,
                0x205F, 0x3000, 0xFEFF]
      \<or> (0x2000 \<le> c \<and> c \<le> 0x200A))"

definition trim :: "jsstring \<Rightarrow> jsstring" where
  "trim s = rev (dropWhile is_ws (rev (dropWhile is_ws s)))"

text \<open>The spec's words for a field without content: empty, or white space only.\<close>

definition whitespace_only :: "jsstring \<Rightarrow> bool" where
  "whitespace_only s = list_all is_ws s"


section \<open>The form collector (component \<open>BootcampForm\<close>)\<close>

text \<open>
  \<open>formData\<close> is the record of the five inputs. \<open>durasi\<close> is a JavaScript
  number, but the only writer of the state, \<open>handleChange\<close>, stores
  \<open>parseInt(value) || 0\<close>: never a fraction, never NaN. It is an \<open>int\<close> here;
  the comparisons of \<open>validate\<close> are the only operations on it.
\<close>

record BootcampFormInput =
  nama :: jsstring
  durasi :: int
  level :: jsstring
  deskripsi :: jsstring
  additional_context :: jsstring

text \<open>The keys of \<open>BootcampFormInput\<close>, which are the keys of the error object.\<close>

datatype field = Nama | Durasi | Level | Deskripsi | Additional_context

text \<open>
  The error object is a JavaScript object filled by assignments: a list of
  key and message pairs in insertion order, so that \<open>Object.keys\<close> is the list of
  first components.
\<close>

record form_state =
  formData :: BootcampFormInput
  errors :: "(field \<times> jsstring) list"

text \<open>
  The props of the component. The two callbacks are supplied by the caller and
  opaque; a call of one of them is recorded as an effect. \<open>onGenerateAI\<close> is
  optional, so the props say whether it was given.
\<close>

record props =
  has_onGenerateAI :: bool
  loading :: bool

datatype effect =
    PreventDefault
  | CallOnSubmit BootcampFormInput
  | CallOnGenerateAI BootcampFormInput

definition validate :: "form_state \<Rightarrow> bool \<times> form_state" where
  "validate st =
     (let newErrors = [];
          newErrors = (if trim (nama (formData st)) = []
                       then newErrors @ [(Nama, ascii ''Nama bootcamp wajib diisi'')]
                       else newErrors);
          newErrors = (if durasi (formData st) < 1 \<or> durasi (formData st) > 24
                       then newErrors @ [(Durasi, ascii ''Durasi harus antara 1-24 minggu'')]
                       else newErrors);
          newErrors = (if trim (deskripsi (formData st)) = []
                       then newErrors @ [(Deskripsi, ascii ''Deskripsi bootcamp wajib diisi'')]
                       else newErrors)
      in (length (map fst newErrors) = 0, st\<lparr>errors := newErrors\<rparr>))"

definition handleSubmit :: "form_state \<Rightarrow> form_state \<times> effect list" where
  "handleSubmit st =
     (case validate st of
        (ok, st') \<Rightarrow>
          if ok then (st', [PreventDefault, CallOnSubmit (formData st)])
          else (st', [PreventDefault]))"

definition handleGenerateAI :: "props \<Rightarrow> form_state \<Rightarrow> form_state \<times> effect list" where
  "handleGenerateAI p st =
     (case validate st of
        (ok, st') \<Rightarrow>
          if ok \<and> has_onGenerateAI p then (st', [CallOnGenerateAI (formData st)])
          else (st', []))"

text \<open>
  The generate button exists only when the caller gave \<open>onGenerateAI\<close>
  (\<open>{onGenerateAI && (<button ...>)}\<close> in the render).
\<close>

definition generate_button_rendered :: "props \<Rightarrow> bool" where
  "generate_button_rendered p = has_onGenerateAI p"

text \<open>The calls of the caller's handlers among the effects of an event handler.\<close>

fun is_handler_call :: "effect \<Rightarrow> bool" where
  "is_handler_call PreventDefault = False"
| "is_handler_call (CallOnSubmit _) = True"
| "is_handler_call (CallOnGenerateAI _) = True"

definition handler_calls :: "effect list \<Rightarrow> effect list" where
  "handler_calls es = filter is_handler_call es"


section \<open>JSON values and the built-ins of the platform\<close>

text \<open>
  A JavaScript number is an IEEE double: a finite value (a rational here), minus
  zero, an infinity or NaN. The values the code handles are those of JSON (null,
  booleans, numbers, strings, arrays and objects, an object being the list of its own
  properties in their order) and \<open>undefined\<close>, the value of a property that is
  absent. \<open>JSON.parse\<close> never yields \<open>undefined\<close>.
\<close>

datatype jsnumber = Finite rat | MinusZero | PlusInfinity | MinusInfinity | NaN

datatype jsvalue =
    JUndefined
  | JNull
  | JBool bool
  | JNum jsnumber
  | JStr jsstring
  | JArr "jsvalue list"
  | JObj "(jsstring \<times> jsvalue) list"

text \<open>
  A thrown value. Every value thrown in the modelled code is an \<open>Error\<close> object
  with a message; the error of a failed \<open>exec\<close> also carries the output streams of
  the child process.
\<close>

datatype jserror =
    Error jsstring
  | ExecError jsstring jsstring jsstring

fun message :: "jserror \<Rightarrow> jsstring" where
  "message (Error m) = m"
| "message (ExecError m out err) = m"

text \<open>
  \<open>JSON.parse\<close> and \<open>JSON.stringify(v, null, 2)\<close> are built-ins of the engine,
  not code of the repository: the model takes them as parameters. \<open>JSON.parse\<close>
  throws a SyntaxError on a text that is not JSON.
\<close>

record json_builtins =
  JSON_parse :: "jsstring \<Rightarrow> jserror + jsvalue"
  JSON_stringify :: "jsvalue \<Rightarrow> jsstring"

text \<open>The decimal digits of a natural number, as a template literal prints it.\<close>

fun decimal :: "nat \<Rightarrow> jsstring" where
  "decimal n =
     (if n < 10 then [of_nat (48 + n)]
      else decimal (n div 10) @ [of_nat (48 + n mod 10)])"

declare decimal.simps [simp del]


section \<open>The result editor (component \<open>BootcampFormContainer\<close>)\<close>

text \<open>
  The state of the editor: the in-memory document \<open>generatedData\<close> (initially
  null) and the raw text buffer \<open>jsonContent\<close>. What the user sees of a handler
  is recorded as effects: an alert with its message, or a file offered for download
  with its name and contents.
\<close>

record editor_state =
  generatedData :: jsvalue
  jsonContent :: jsstring

datatype ui_effect =
    Alert jsstring
  | Download jsstring jsstring

text \<open>
  What the file input delivers: no file was chosen, the \<open>FileReader\<close> could not
  read the file (\<open>onload\<close> never runs), or the text of the file.
\<close>

datatype selected_file = NoFile | Unreadable | FileText jsstring

definition msg_loaded :: jsstring where
  "msg_loaded = 0x2705 # ascii '' JSON Loaded Successfully! You can now edit and convert it.''"

definition msg_load_invalid :: jsstring where
  "msg_load_invalid = 0x274C # ascii '' Error loading JSON: Invalid format''"


definition handleLoadJson ::
  "json_builtins \<Rightarrow> editor_state \<Rightarrow> selected_file \<Rightarrow> editor_state \<times> ui_effect list" where
  "handleLoadJson J st file =
     (case file of
        NoFile \<Rightarrow> (st, [])
      | Unreadable \<Rightarrow> (st, [])
      | FileText content \<Rightarrow>
          (case JSON_parse J content of
             Inr parsed \<Rightarrow>
               (st\<lparr>generatedData := parsed, jsonContent := content\<rparr>, [Alert msg_loaded])
           | Inl err \<Rightarrow> (st, [Alert msg_load_invalid])))"




text \<open>
  Some facts of ECMAScript about the built-ins, as a table. The literal \<open>1e400\<close>
  is well-formed JSON and exceeds the range of a double, so \<open>JSON.parse\<close> returns
  Infinity for it; \<open>null\<close>, \<open>[]\<close> and \<open>{"modules":[]}\<close> parse to null, the
  empty array and the object with the one property \<open>modules\<close>. \<open>JSON.stringify\<close>
  prints a number that is not finite as \<open>null\<close>, as it prints null, and with
  indentation 2 it prints the object whose one property \<open>identitas\<close> is the empty
  object on three lines. Every other text and value is left out of the table (a
  SyntaxError and the empty text here).
\<close>

definition ecma_sample :: json_builtins where
  "ecma_sample =
     \<lparr>JSON_parse = (\<lambda>s. if s = ascii ''1e400'' then Inr (JNum PlusInfinity)
                         else if s = ascii ''null'' then Inr JNull
                         else if s = ascii ''[]'' then Inr (JArr [])
                         else if s = ascii ''{'' @ [0x22] @ ascii ''modules'' @ [0x22] @ ascii '':[]}''
                         then Inr (JObj [(ascii ''modules'', JArr [])])
                         else Inl (Error (ascii ''SyntaxError''))),
      JSON_stringify = (\<lambda>v. if v = JNum PlusInfinity then ascii ''null''
                          else if v = JNull then ascii ''null''
                          else if v = JObj [(ascii ''identitas'', JObj [])]
                          then ascii ''{'' @ [0xA] @ ascii ''  '' @ [0x22] @ ascii ''identitas''
                                 @ [0x22] @ ascii '': {}'' @ [0xA] @ ascii ''}''
                          else [])\<rparr>"


section \<open>The API layer: values, platform and control flow\<close>

subsection \<open>Operations on values\<close>

text \<open>\<open>ToBoolean\<close>: the falsy values are undefined, null, false, 0, -0, NaN and the empty string.\<close>

fun truthy :: "jsvalue \<Rightarrow> bool" where
  "truthy JUndefined = False"
| "truthy JNull = False"
| "truthy (JBool b) = b"
| "truthy (JNum n) = (n \<noteq> Finite 0 \<and> n \<noteq> MinusZero \<and> n \<noteq> NaN)"
| "truthy (JStr s) = (s \<noteq> [])"
| "truthy (JArr xs) = True"
| "truthy (JObj kvs) = True"

text \<open>
  Reading a property. The keys the code reads (\<open>nama\<close>, \<open>durasi\<close>, \<open>level\<close>,
  \<open>deskripsi\<close>, \<open>additional_context\<close>, \<open>identitas\<close>) are defined by no
  prototype, so the value is the object's own property, and \<open>undefined\<close> on an
  array or a primitive. Destructuring \<open>undefined\<close> or null throws before any key
  is read; \<open>destructurable\<close> says that it does not.
\<close>

fun lookup :: "(jsstring \<times> jsvalue) list \<Rightarrow> jsstring \<Rightarrow> jsvalue" where
  "lookup [] k = JUndefined"
| "lookup ((k', v) # kvs) k = (if k' = k then v else lookup kvs k)"

fun get_prop :: "jsvalue \<Rightarrow> jsstring \<Rightarrow> jsvalue" where
  "get_prop (JObj kvs) k = lookup kvs k"
| "get_prop _ k = JUndefined"

fun destructurable :: "jsvalue \<Rightarrow> bool" where
  "destructurable JUndefined = False"
| "destructurable JNull = False"
| "destructurable _ = True"

text \<open>
  Assigning a property of an object: an existing key keeps its place, a new key
  (none of the assigned keys is an array index) goes to the end.
\<close>

fun obj_set :: "jsstring \<Rightarrow> jsvalue \<Rightarrow> (jsstring \<times> jsvalue) list \<Rightarrow> (jsstring \<times> jsvalue) list" where
  "obj_set k v [] = [(k, v)]"
| "obj_set k v ((k', v') # kvs) =
     (if k' = k then (k, v) # kvs else (k', v') # obj_set k v kvs)"

text \<open>
  The engine's own errors: their messages are texts of the engine, which the model
  takes from the platform.
\<close>

datatype fault =
    CannotDestructure
  | CannotSetProperty
  | NotAFunction

subsection \<open>The platform\<close>

text \<open>
  What the handlers use of Node and the operating system, over a state \<open>'w\<close> of the
  world outside the process (the file system and what the child processes do to it):
  \<^item> \<open>clock k\<close> is the \<open>k\<close>-th reading of the clock by the request, in
    milliseconds, and \<open>toISOString\<close> the ISO format of such a reading;
  \<^item> \<open>path_join\<close>, \<open>cwd\<close> and \<open>dirname\<close> are \<open>path.join\<close>,
    \<open>process.cwd()\<close> and \<open>__dirname\<close>;
  \<^item> \<open>to_string\<close> is the conversion of a value that is not a string inside a
    template literal (it can throw), \<open>engine_message\<close> the message of an engine error;
  \<^item> the \<open>fs\<close> functions and \<open>exec\<close> are the promises of \<open>fs/promises\<close> and
    of the promisified \<open>child_process.exec\<close> (command and timeout): \<open>Inl\<close> is a
    rejection, and those that act on the world return the new world;
  \<^item> \<open>builtins\<close> are \<open>JSON.parse\<close> and \<open>JSON.stringify\<close>.
  Console output is not modelled.
\<close>

record 'w platform =
  clock :: "nat \<Rightarrow> nat"
  toISOString :: "nat \<Rightarrow> jsstring"
  path_join :: "jsstring list \<Rightarrow> jsstring"
  cwd :: jsstring
  dirname :: jsstring
  to_string :: "jsvalue \<Rightarrow> jserror + jsstring"
  engine_message :: "fault \<Rightarrow> jsstring"
  fs_mkdir :: "jsstring \<Rightarrow> 'w \<Rightarrow> (jserror + unit) \<times> 'w"
  fs_access :: "jsstring \<Rightarrow> 'w \<Rightarrow> jserror + unit"
  fs_readFile_utf8 :: "jsstring \<Rightarrow> 'w \<Rightarrow> jserror + jsstring"
  fs_readFile :: "jsstring \<Rightarrow> 'w \<Rightarrow> jserror + 8 word list"
  fs_writeFile :: "jsstring \<Rightarrow> jsstring \<Rightarrow> 'w \<Rightarrow> (jserror + unit) \<times> 'w"
  fs_unlink :: "jsstring \<Rightarrow> 'w \<Rightarrow> (jserror + unit) \<times> 'w"
  exec :: "jsstring \<Rightarrow> nat \<Rightarrow> 'w \<Rightarrow> (jserror + jsstring \<times> jsstring) \<times> 'w"
  builtins :: json_builtins

text \<open>
  A request as a handler sees it: \<open>req.method\<close> (the field \<open>req_method\<close>) and
  \<open>req.body\<close>.
\<close>

record request =
  req_method :: jsstring
  body :: jsvalue

text \<open>
  What a handler does to the outside, in order: its calls of the file system and of
  \<open>exec\<close>, the headers it sets and the response it sends (status and body).
\<close>

datatype payload = JsonBody jsvalue | BufferBody "8 word list"

datatype event =
    Mkdir jsstring
  | Exec jsstring nat
  | Access jsstring
  | ReadFile jsstring
  | WriteFile jsstring jsstring
  | Unlink jsstring
  | SetHeader jsstring jsstring
  | Respond nat payload

text \<open>
  The state a handler runs in: the world, the number of clock readings so far, and
  the events so far.
\<close>

record 'w run_state =
  world :: 'w
  ticks :: nat
  trace :: "event list"

subsection \<open>Statements that can throw or return\<close>

text \<open>
  A statement ends with a value, with a thrown error, or with the \<open>return\<close> of the
  handler. \<open>and_then\<close> is sequencing, \<open>try_catch\<close> the \<open>try\<close> block with its
  handler (also a promise's \<open>.catch\<close>).
\<close>

datatype 'a outcome = Val 'a | Thrown jserror | Returned

type_synonym ('w, 'a) io = "'w run_state \<Rightarrow> 'a outcome \<times> 'w run_state"

definition ret :: "'a \<Rightarrow> ('w, 'a) io" where
  "ret a s = (Val a, s)"

definition throw :: "jserror \<Rightarrow> ('w, 'a) io" where
  "throw e s = (Thrown e, s)"

definition return_void :: "('w, 'a) io" where
  "return_void s = (Returned, s)"

definition and_then :: "('w, 'a) io \<Rightarrow> ('a \<Rightarrow> ('w, 'b) io) \<Rightarrow> ('w, 'b) io" where
  "and_then m f s =
     (case m s of
        (Val a, s') \<Rightarrow> f a s'
      | (Thrown e, s') \<Rightarrow> (Thrown e, s')
      | (Returned, s') \<Rightarrow> (Returned, s'))"

definition try_catch :: "('w, 'a) io \<Rightarrow> (jserror \<Rightarrow> ('w, 'a) io) \<Rightarrow> ('w, 'a) io" where
  "try_catch m h s =
     (case m s of
        (Thrown e, s') \<Rightarrow> h e s'
      | (Val a, s') \<Rightarrow> (Val a, s')
      | (Returned, s') \<Rightarrow> (Returned, s'))"

definition lift :: "jserror + 'a \<Rightarrow> ('w, 'a) io" where
  "lift r = (case r of Inl e \<Rightarrow> throw e | Inr a \<Rightarrow> ret a)"

definition emit :: "event \<Rightarrow> ('w, unit) io" where
  "emit ev s = (Val (), s\<lparr>trace := trace s @ [ev]\<rparr>)"

text \<open>An awaited call of the platform that acts on the world, and one that only reads it.\<close>

definition sys :: "event \<Rightarrow> ('w \<Rightarrow> (jserror + 'a) \<times> 'w) \<Rightarrow> ('w, 'a) io" where
  "sys ev f s =
     (case f (world s) of
        (Inl e, w') \<Rightarrow> (Thrown e, s\<lparr>world := w', trace := trace s @ [ev]\<rparr>)
      | (Inr a, w') \<Rightarrow> (Val a, s\<lparr>world := w', trace := trace s @ [ev]\<rparr>))"

definition sys_read :: "event \<Rightarrow> ('w \<Rightarrow> jserror + 'a) \<Rightarrow> ('w, 'a) io" where
  "sys_read ev f s =
     (case f (world s) of
        Inl e \<Rightarrow> (Thrown e, s\<lparr>trace := trace s @ [ev]\<rparr>)
      | Inr a \<Rightarrow> (Val a, s\<lparr>trace := trace s @ [ev]\<rparr>))"

text \<open>\<open>Date.now()\<close> and \<open>new Date()\<close> read the clock.\<close>

definition Date_now :: "'w platform \<Rightarrow> ('w, nat) io" where
  "Date_now P s = (Val (clock P (ticks s)), s\<lparr>ticks := Suc (ticks s)\<rparr>)"

text \<open>\<open>res.status(n).json(v)\<close>; \<open>res.json(v)\<close> is the same with status 200.\<close>

definition res_json :: "nat \<Rightarrow> jsvalue \<Rightarrow> ('w, unit) io" where
  "res_json status v = emit (Respond status (JsonBody v))"

text \<open>The responses among the events.\<close>

fun responses :: "event list \<Rightarrow> (nat \<times> payload) list" where
  "responses [] = []"
| "responses (Respond status b # es) = (status, b) # responses es"
| "responses (_ # es) = responses es"

subsection \<open>Strings of the handlers\<close>

definition join_with :: "jsstring \<Rightarrow> jsstring list \<Rightarrow> jsstring" where
  "join_with sep xs = (case xs of [] \<Rightarrow> [] | y # ys \<Rightarrow> y @ concat (map (\<lambda>x. sep @ x) ys))"

text \<open>A text between double quotes (code unit 0x22).\<close>

definition quoted :: "jsstring \<Rightarrow> jsstring" where
  "quoted s = [0x22] @ s @ [0x22]"

text \<open>A value inside a template literal: a string as it is, any other value converted.\<close>

definition template :: "'w platform \<Rightarrow> jsvalue \<Rightarrow> jserror + jsstring" where
  "template P v = (case v of JStr s \<Rightarrow> Inr s | _ \<Rightarrow> to_string P v)"

definition sum_bind :: "'e + 'a \<Rightarrow> ('a \<Rightarrow> 'e + 'b) \<Rightarrow> 'e + 'b" where
  "sum_bind r f = (case r of Inl e \<Rightarrow> Inl e | Inr a \<Rightarrow> f a)"

text \<open>The response bodies \<open>{success: false, error: m}\<close> and \<open>{success: true, data: d}\<close>.\<close>

definition failure :: "jsstring \<Rightarrow> jsvalue" where
  "failure m = JObj [(ascii ''success'', JBool False), (ascii ''error'', JStr m)]"

definition success :: "jsvalue \<Rightarrow> jsvalue" where
  "success d = JObj [(ascii ''success'', JBool True), (ascii ''data'', d)]"

text \<open>
  The assignment \<open>target.key = v\<close> on a parsed document, as the response will show
  it. On an object it sets the property. On an array it sets a property that is not
  an element, which \<open>JSON.stringify\<close> does not print: the document sent is the
  array as it was. On null (and undefined) it throws a TypeError. On a boolean, a
  number or a string it throws in strict mode (the Next.js route is a module) and
  does nothing otherwise (the Express file is a sloppy script).
\<close>

fun rejects_props :: "bool \<Rightarrow> jsvalue \<Rightarrow> bool" where
  "rejects_props strict JUndefined = True"
| "rejects_props strict JNull = True"
| "rejects_props strict (JObj kvs) = False"
| "rejects_props strict (JArr xs) = False"
| "rejects_props strict prim = strict"

fun with_prop :: "jsvalue \<Rightarrow> jsstring \<Rightarrow> jsvalue \<Rightarrow> jsvalue" where
  "with_prop (JObj kvs) k v = JObj (obj_set k v kvs)"
| "with_prop target k v = target"

definition assign_prop ::
  "'w platform \<Rightarrow> bool \<Rightarrow> jsvalue \<Rightarrow> jsstring \<Rightarrow> jsvalue \<Rightarrow> jserror + jsvalue" where
  "assign_prop P strict target k v =
     (if rejects_props strict target then Inl (Error (engine_message P CannotSetProperty))
      else Inr (with_prop target k v))"

subsection \<open>The Next.js route \<open>pages/api/generate-bootcamp.ts\<close>\<close>

definition next_tempDir :: "'w platform \<Rightarrow> jsstring" where
  "next_tempDir P = path_join P [cwd P, ascii ''temp'']"

definition next_outputPath :: "'w platform \<Rightarrow> nat \<Rightarrow> jsstring" where
  "next_outputPath P t =
     path_join P [cwd P, ascii ''temp'', ascii ''bootcamp_'' @ decimal t @ ascii ''.json'']"

definition next_pythonCmd ::
  "'w platform \<Rightarrow> jsvalue \<Rightarrow> jsvalue \<Rightarrow> jsvalue \<Rightarrow> jsvalue \<Rightarrow> jsstring \<Rightarrow> jserror + jsstring" where
  "next_pythonCmd P = (\<lambda>nama durasi level additional_context outputPath.
     (let scriptPath = path_join P [cwd P, ascii ''scripts'', ascii ''ai_to_json.py'']
      in sum_bind (template P nama) (\<lambda>n.
         sum_bind (template P durasi) (\<lambda>d.
         sum_bind (template P level) (\<lambda>l.
         sum_bind (template P (if truthy additional_context then additional_context
                               else JStr [])) (\<lambda>c.
         Inr (join_with (ascii '' '')
               [ascii ''python3'',
                scriptPath,
                ascii ''--name '' @ quoted n,
                ascii ''--durasi '' @ d,
                ascii ''--level '' @ quoted l,
                ascii ''--context '' @ quoted c,
                ascii ''--output '' @ quoted outputPath])))))))"

text \<open>The metadata the route adds: \<open>identitas\<close> with the code of clock reading \<open>t\<close>.\<close>

definition next_identitas :: "jsvalue \<Rightarrow> jsvalue \<Rightarrow> jsvalue \<Rightarrow> nat \<Rightarrow> jsvalue" where
  "next_identitas = (\<lambda>nama durasi level t.
     JObj [(ascii ''nama'', nama),
           (ascii ''kode'', JStr (ascii ''BOOT-'' @ decimal t)),
           (ascii ''durasi'', durasi),
           (ascii ''tipe'', JStr (ascii ''Hybrid'')),
           (ascii ''level'', level),
           (ascii ''kapasitas'', JNum (Finite 25))])"

definition handler :: "'w platform \<Rightarrow> request \<Rightarrow> ('w, unit) io" where
  "handler P req =
     (if req_method req \<noteq> ascii ''POST'' then
        and_then (res_json 405 (failure (ascii ''Method not allowed''))) (\<lambda>_. return_void)
      else
        try_catch
          (if \<not> destructurable (body req) then
             throw (Error (engine_message P CannotDestructure))
           else
             let nama = get_prop (body req) (ascii ''nama'');
                 durasi = get_prop (body req) (ascii ''durasi'');
                 level = get_prop (body req) (ascii ''level'');
                 deskripsi = get_prop (body req) (ascii ''deskripsi'');
                 additional_context = get_prop (body req) (ascii ''additional_context'')
             in
             if \<not> truthy nama \<or> \<not> truthy durasi \<or> \<not> truthy level \<or> \<not> truthy deskripsi then
               and_then (res_json 400 (failure (ascii ''Missing required fields'')))
                 (\<lambda>_. return_void)
             else
               and_then (Date_now P) (\<lambda>t0.
               let outputPath = next_outputPath P t0 in
               and_then (sys (Mkdir (next_tempDir P)) (fs_mkdir P (next_tempDir P))) (\<lambda>_.
               and_then (lift (next_pythonCmd P nama durasi level additional_context
                                 outputPath)) (\<lambda>pythonCmd.
               and_then (sys (Exec pythonCmd 300000) (exec P pythonCmd 300000)) (\<lambda>streams.
               and_then (sys_read (ReadFile outputPath) (fs_readFile_utf8 P outputPath))
                 (\<lambda>jsonData.
               and_then (lift (JSON_parse (builtins P) jsonData)) (\<lambda>bootcampData.
               and_then (Date_now P) (\<lambda>t1.
               and_then (lift (assign_prop P True bootcampData (ascii ''identitas'')
                                 (next_identitas nama durasi level t1))) (\<lambda>bootcampData.
               and_then (Date_now P) (\<lambda>t2.
               and_then (lift (assign_prop P True bootcampData (ascii ''id'')
                                 (JStr (ascii ''boot-'' @ decimal t2)))) (\<lambda>bootcampData.
               and_then (Date_now P) (\<lambda>t3.
               and_then (lift (assign_prop P True bootcampData (ascii ''createdAt'')
                                 (JStr (toISOString P t3)))) (\<lambda>bootcampData.
               and_then (Date_now P) (\<lambda>t4.
               and_then (lift (assign_prop P True bootcampData (ascii ''updatedAt'')
                                 (JStr (toISOString P t4)))) (\<lambda>bootcampData.
               and_then (try_catch (sys (Unlink outputPath) (fs_unlink P outputPath))
                           (\<lambda>_. ret ())) (\<lambda>_.
               and_then (res_json 200 (success bootcampData)) (\<lambda>_.
               return_void)))))))))))))))))
          (\<lambda>error.
             and_then (res_json 500 (failure (message error))) (\<lambda>_. return_void)))"


subsection \<open>The Express server \<open>express_api.js\<close>\<close>

text \<open>\<open>s.includes(t)\<close> and \<open>s.slice(-6)\<close>.\<close>

fun includes_str :: "jsstring \<Rightarrow> jsstring \<Rightarrow> bool" where
  "includes_str [] t = (t = [])"
| "includes_str (c # cs) t = (take (length t) (c # cs) = t \<or> includes_str cs t)"

definition slice_last6 :: "jsstring \<Rightarrow> jsstring" where
  "slice_last6 s = drop (length s - 6) s"

text \<open>
  \<open>replace(/[\r\n]+/g, ' ')\<close> turns every maximal run of CR and LF into one
  space (the flag says whether the previous code unit belonged to a run), and
  \<open>replace(/"/g, '\\"')\<close> puts a backslash before every double quote.
\<close>

fun collapse_newlines :: "bool \<Rightarrow> jsstring \<Rightarrow> jsstring" where
  "collapse_newlines in_run [] = []"
| "collapse_newlines in_run (c # cs) =
     (if c = 0xD \<or> c = 0xA then
        (if in_run then collapse_newlines True cs else 0x20 # collapse_newlines True cs)
      else c # collapse_newlines False cs)"

definition escape_quotes :: "jsstring \<Rightarrow> jsstring" where
  "escape_quotes s = concat (map (\<lambda>c. if c = 0x22 then [0x5C, 0x22] else [c]) s)"

text \<open>
  The sanitised context: a truthy \<open>additional_context\<close> that is not a string has
  no method \<open>replace\<close>, and the call throws a TypeError.
\<close>

definition express_context :: "'w platform \<Rightarrow> jsvalue \<Rightarrow> jserror + jsstring" where
  "express_context P = (\<lambda>additional_context.
     if truthy additional_context then
       (case additional_context of
          JStr s \<Rightarrow> Inr (escape_quotes (collapse_newlines False s))
        | _ \<Rightarrow> Inl (Error (engine_message P NotAFunction)))
     else Inr [])"

text \<open>The quoted path of the interpreter, with its backslashes (code unit 0x5C).\<close>

definition python_exe :: jsstring where
  "python_exe =
     quoted (join_with [0x5C]
       [ascii ''C:'', ascii ''Users'', ascii ''Asus'', ascii ''AppData'', ascii ''Local'',
        ascii ''Programs'', ascii ''Python'', ascii ''Python312'', ascii ''python.exe''])"

definition express_tempDir :: "'w platform \<Rightarrow> jsstring" where
  "express_tempDir P = path_join P [dirname P, ascii ''temp'']"

definition express_outputPath :: "'w platform \<Rightarrow> nat \<Rightarrow> jsstring" where
  "express_outputPath P t =
     path_join P [dirname P, ascii ''temp'', ascii ''bootcamp_'' @ decimal t @ ascii ''.json'']"

definition express_pythonCmd ::
  "'w platform \<Rightarrow> jsvalue \<Rightarrow> jsvalue \<Rightarrow> jsvalue \<Rightarrow> jsstring \<Rightarrow> jsstring \<Rightarrow> jserror + jsstring" where
  "express_pythonCmd P = (\<lambda>nama durasi level context outputPath.
     (let scriptPath = path_join P [dirname P, ascii ''scripts'', ascii ''ai_to_json.py'']
      in sum_bind (template P nama) (\<lambda>n.
         sum_bind (template P durasi) (\<lambda>d.
         sum_bind (template P level) (\<lambda>l.
         Inr (join_with (ascii '' '')
               [python_exe,
                quoted scriptPath,
                ascii ''--name '' @ quoted n,
                ascii ''--durasi '' @ d,
                ascii ''--level '' @ quoted l,
                ascii ''--context '' @ quoted context,
                ascii ''--output '' @ quoted outputPath]))))))"

definition express_identitas :: "jsvalue \<Rightarrow> jsvalue \<Rightarrow> jsvalue \<Rightarrow> nat \<Rightarrow> jsvalue" where
  "express_identitas = (\<lambda>nama durasi level t.
     JObj [(ascii ''nama'', nama),
           (ascii ''kode'', JStr (ascii ''BOOT-'' @ slice_last6 (decimal t))),
           (ascii ''durasi'', durasi),
           (ascii ''tipe'', JStr (ascii ''Hybrid'')),
           (ascii ''level'', level),
           (ascii ''kapasitas'', JNum (Finite 25))])"

text \<open>\<open>execError.stdout || ''\<close>, \<open>execError.stderr || ''\<close> and \<open>error.message || 'Unknown error'\<close>.\<close>

fun stdout_of :: "jserror \<Rightarrow> jsstring" where
  "stdout_of (ExecError m out err) = out"
| "stdout_of (Error m) = []"

fun stderr_of :: "jserror \<Rightarrow> jsstring" where
  "stderr_of (ExecError m out err) = err"
| "stderr_of (Error m) = []"

definition message_or_unknown :: "jserror \<Rightarrow> jsstring" where
  "message_or_unknown e = (if message e = [] then ascii ''Unknown error'' else message e)"

definition express_generate_bootcamp :: "'w platform \<Rightarrow> request \<Rightarrow> ('w, unit) io" where
  "express_generate_bootcamp P req =
     try_catch
       (if \<not> destructurable (body req) then
          throw (Error (engine_message P CannotDestructure))
        else
          let nama = get_prop (body req) (ascii ''nama'');
              durasi = get_prop (body req) (ascii ''durasi'');
              level = get_prop (body req) (ascii ''level'');
              deskripsi = get_prop (body req) (ascii ''deskripsi'');
              additional_context = get_prop (body req) (ascii ''additional_context'')
          in
          if \<not> truthy nama \<or> \<not> truthy durasi \<or> \<not> truthy level \<or> \<not> truthy deskripsi then
            and_then (res_json 400
                        (failure (ascii ''Missing required fields: nama, durasi, level, deskripsi'')))
              (\<lambda>_. return_void)
          else
            and_then (Date_now P) (\<lambda>t0.
            let outputPath = express_outputPath P t0 in
            and_then (sys (Mkdir (express_tempDir P)) (fs_mkdir P (express_tempDir P))) (\<lambda>_.
            and_then (lift (express_context P additional_context)) (\<lambda>context.
            and_then (lift (express_pythonCmd P nama durasi level context outputPath))
              (\<lambda>pythonCmd.
            and_then
              (try_catch (sys (Exec pythonCmd 300000) (exec P pythonCmd 300000))
                 (\<lambda>execError.
                    let stdout = stdout_of execError; stderr = stderr_of execError in
                    if includes_str stdout (ascii ''API key not found'')
                       \<or> includes_str stderr (ascii ''API key not found'') then
                      and_then (res_json 500 (failure (ascii
                        ''OpenAI API key not found. Please set OPENAI_API_KEY in .env.local file'')))
                        (\<lambda>_. return_void)
                    else if includes_str stdout (ascii ''Failed to initialize'')
                       \<or> includes_str stderr (ascii ''Failed to initialize'') then
                      and_then (res_json 500 (failure (ascii
                        ''Failed to initialize OpenAI client. Check your API key is valid.'')))
                        (\<lambda>_. return_void)
                    else throw execError))
              (\<lambda>(stdout, stderr).
            and_then
              (try_catch (sys_read (Access outputPath) (fs_access P outputPath))
                 (\<lambda>_. and_then (res_json 500
                         (JObj [(ascii ''success'', JBool False),
                                (ascii ''error'', JStr (ascii
                                  ''AI generation failed. Check if OpenAI API key is set in .env.local'')),
                                (ascii ''details'', JStr stdout)]))
                       (\<lambda>_. return_void)))
              (\<lambda>_.
            and_then (sys_read (ReadFile outputPath) (fs_readFile_utf8 P outputPath))
              (\<lambda>jsonData.
            and_then (lift (JSON_parse (builtins P) jsonData)) (\<lambda>bootcampData.
            and_then (Date_now P) (\<lambda>t1.
            and_then (lift (assign_prop P False bootcampData (ascii ''identitas'')
                              (express_identitas nama durasi level t1))) (\<lambda>bootcampData.
            and_then (Date_now P) (\<lambda>t2.
            and_then (lift (assign_prop P False bootcampData (ascii ''id'')
                              (JStr (ascii ''boot-'' @ decimal t2)))) (\<lambda>bootcampData.
            and_then (Date_now P) (\<lambda>t3.
            and_then (lift (assign_prop P False bootcampData (ascii ''createdAt'')
                              (JStr (toISOString P t3)))) (\<lambda>bootcampData.
            and_then (Date_now P) (\<lambda>t4.
            and_then (lift (assign_prop P False bootcampData (ascii ''updatedAt'')
                              (JStr (toISOString P t4)))) (\<lambda>bootcampData.
            and_then (try_catch (sys (Unlink outputPath) (fs_unlink P outputPath))
                        (\<lambda>_. ret ())) (\<lambda>_.
            and_then (res_json 200 (success bootcampData)) (\<lambda>_.
            return_void)))))))))))))))))))
       (\<lambda>error.
          and_then (res_json 500 (failure (message_or_unknown error))) (\<lambda>_. return_void))"

definition convert_jsonPath :: "'w platform \<Rightarrow> nat \<Rightarrow> jsstring" where
  "convert_jsonPath P t =
     path_join P [dirname P, ascii ''temp'', ascii ''bootcamp_'' @ decimal t @ ascii ''.json'']"

definition convert_docxPath :: "'w platform \<Rightarrow> nat \<Rightarrow> jsstring" where
  "convert_docxPath P t =
     path_join P [dirname P, ascii ''temp'', ascii ''bootcamp_'' @ decimal t @ ascii ''.docx'']"

definition convert_pythonCmd :: "'w platform \<Rightarrow> jsstring \<Rightarrow> jsstring \<Rightarrow> jsstring" where
  "convert_pythonCmd P jsonPath docxPath =
     (let scriptPath = path_join P [dirname P, ascii ''scripts'', ascii ''json_to_docx.py'']
      in python_exe @ ascii '' '' @ quoted scriptPath @ ascii '' --input '' @ quoted jsonPath
           @ ascii '' --output '' @ quoted docxPath)"

definition express_convert_to_docx :: "'w platform \<Rightarrow> request \<Rightarrow> ('w, unit) io" where
  "express_convert_to_docx P req =
     try_catch
       (let bootcampData = body req in
        if \<not> truthy bootcampData \<or> \<not> truthy (get_prop bootcampData (ascii ''identitas'')) then
          and_then (res_json 400 (failure (ascii ''Invalid bootcamp data''))) (\<lambda>_. return_void)
        else
          and_then (Date_now P) (\<lambda>timestamp.
          let jsonPath = convert_jsonPath P timestamp;
              docxPath = convert_docxPath P timestamp;
              text = JSON_stringify (builtins P) bootcampData
          in
          and_then (sys (WriteFile jsonPath text) (fs_writeFile P jsonPath text)) (\<lambda>_.
          let pythonCmd = convert_pythonCmd P jsonPath docxPath in
          and_then (sys (Exec pythonCmd 60000) (exec P pythonCmd 60000)) (\<lambda>streams.
          and_then (sys_read (ReadFile docxPath) (fs_readFile P docxPath)) (\<lambda>docxBuffer.
          and_then (try_catch (sys (Unlink jsonPath) (fs_unlink P jsonPath))
                      (\<lambda>_. ret ())) (\<lambda>_.
          and_then (try_catch (sys (Unlink docxPath) (fs_unlink P docxPath))
                      (\<lambda>_. ret ())) (\<lambda>_.
          and_then (emit (SetHeader (ascii ''Content-Type'') (ascii
            ''application/vnd.openxmlformats-officedocument.wordprocessingml.document'')))
            (\<lambda>_.
          and_then (emit (SetHeader (ascii ''Content-Disposition'')
                      (ascii ''attachment; filename='' @ quoted (ascii ''bootcamp_curriculum.docx''))))
            (\<lambda>_.
          and_then (emit (Respond 200 (BufferBody docxBuffer))) (\<lambda>_.
          return_void))))))))))
       (\<lambda>error.
          and_then (res_json 500 (failure (message_or_unknown error))) (\<lambda>_. return_void))"

subsection \<open>A small platform to run the handlers on\<close>

text \<open>
  A platform for concrete runs. The world is the list of the files with their
  texts. The clock stands at 1700000000000 ms, whose ISO format is
  \<open>2023-11-14T22:13:20.000Z\<close>; paths are joined with a slash; the number 8 prints
  as \<open>8\<close> (no other value that is not a string is converted in these runs);
  \<open>unlink\<close> fails on a file that does not exist; what the child process does is
  the parameter \<open>script\<close>.
\<close>

type_synonym sim_world = "(jsstring \<times> jsstring) list"

definition without :: "jsstring \<Rightarrow> sim_world \<Rightarrow> sim_world" where
  "without p w = filter (\<lambda>f. fst f \<noteq> p) w"

definition sim_read :: "jsstring \<Rightarrow> sim_world \<Rightarrow> jserror + jsstring" where
  "sim_read p w = (case map_of w p of None \<Rightarrow> Inl (Error (ascii ''ENOENT'')) | Some c \<Rightarrow> Inr c)"

definition sim ::
  "(jsstring \<Rightarrow> sim_world \<Rightarrow> (jserror + jsstring \<times> jsstring) \<times> sim_world) \<Rightarrow> sim_world platform" where
  "sim script =
     \<lparr>clock = (\<lambda>k. 1700000000000),
      toISOString = (\<lambda>t. ascii ''2023-11-14T22:13:20.000Z''),
      path_join = join_with (ascii ''/''),
      cwd = ascii ''/app'',
      dirname = ascii ''/app'',
      to_string = (\<lambda>v. if v = JNum (Finite 8) then Inr (ascii ''8'')
                         else Inl (Error (ascii ''not converted here''))),
      engine_message = (\<lambda>f. ascii ''TypeError''),
      fs_mkdir = (\<lambda>p w. (Inr (), w)),
      fs_access = (\<lambda>p w. case sim_read p w of Inl e \<Rightarrow> Inl e | Inr c \<Rightarrow> Inr ()),
      fs_readFile_utf8 = sim_read,
      fs_readFile = (\<lambda>p w. case sim_read p w of Inl e \<Rightarrow> Inl e | Inr c \<Rightarrow> Inr (map ucast c)),
      fs_writeFile = (\<lambda>p c w. (Inr (), (p, c) # without p w)),
      fs_unlink = (\<lambda>p w. case sim_read p w of Inl e \<Rightarrow> (Inl e, w)
                          | Inr c \<Rightarrow> (Inr (), without p w)),
      exec = (\<lambda>cmd timeout. script cmd),
      builtins = ecma_sample\<rparr>"

text \<open>A child process that writes one file and exits with 0, and one that fails.\<close>

definition script_writes ::
  "jsstring \<Rightarrow> jsstring \<Rightarrow> jsstring \<Rightarrow> sim_world \<Rightarrow> (jserror + jsstring \<times> jsstring) \<times> sim_world" where
  "script_writes p c cmd w = (Inr ([], []), (p, c) # without p w)"

definition script_fails ::
  "jsstring \<Rightarrow> sim_world \<Rightarrow> (jserror + jsstring \<times> jsstring) \<times> sim_world" where
  "script_fails cmd w = (Inl (ExecError (ascii ''Command failed'') [] []), w)"

text \<open>The request of the spec's scenario, and the start of a run in a world.\<close>

definition web_dev_body :: jsvalue where
  "web_dev_body =
     JObj [(ascii ''nama'', JStr (ascii ''Web Dev'')),
           (ascii ''durasi'', JNum (Finite 8)),
           (ascii ''level'', JStr (ascii ''Beginner'')),
           (ascii ''deskripsi'', JStr (ascii ''Learn web dev''))]"

definition start :: "'w \<Rightarrow> 'w run_state" where
  "start w = \<lparr>world = w, ticks = 0, trace = []\<rparr>"

definition web_dev_request :: request where
  "web_dev_request = \<lparr>req_method = ascii ''POST'', body = web_dev_body\<rparr>"

text \<open>
  The paths of the temp files at this clock, the scenario's output text
  \<open>{"modules":[]}\<close>, and a document with an (empty) identity block.
\<close>

definition sample_jsonPath :: jsstring where
  "sample_jsonPath = ascii ''/app/temp/bootcamp_1700000000000.json''"

definition sample_docxPath :: jsstring where
  "sample_docxPath = ascii ''/app/temp/bootcamp_1700000000000.docx''"

definition modules_text :: jsstring where
  "modules_text = ascii ''{'' @ [0x22] @ ascii ''modules'' @ [0x22] @ ascii '':[]}''"

definition sample_next_cmd :: jsstring where
  "sample_next_cmd =
     join_with (ascii '' '')
       [ascii ''python3'', ascii ''/app/scripts/ai_to_json.py'',
        ascii ''--name '' @ quoted (ascii ''Web Dev''), ascii ''--durasi 8'',
        ascii ''--level '' @ quoted (ascii ''Beginner''), ascii ''--context '' @ quoted [],
        ascii ''--output '' @ quoted sample_jsonPath]"

definition sample_express_cmd :: jsstring where
  "sample_express_cmd =
     join_with (ascii '' '')
       [python_exe, quoted (ascii ''/app/scripts/ai_to_json.py''),
        ascii ''--name '' @ quoted (ascii ''Web Dev''), ascii ''--durasi 8'',
        ascii ''--level '' @ quoted (ascii ''Beginner''), ascii ''--context '' @ quoted [],
        ascii ''--output '' @ quoted sample_jsonPath]"

definition convert_request :: request where
  "convert_request = \<lparr>req_method = ascii ''POST'', body = JObj [(ascii ''identitas'', JObj [])]\<rparr>"


subsection \<open>Normal completion\<close>

text \<open>
  What it means for a request to complete normally, in the words of the spec: the
  fields are there, the temp directory can be made, the command can be built, the
  subprocess succeeds, and its output file is there, can be read and parses (for the
  converter: the input file can be written, the subprocess succeeds and the produced
  file can be read). The parameters name the world after \<open>mkdir\<close> (or
  \<open>writeFile\<close>), the command, the output streams and the world after the
  subprocess, and what was read and parsed.
\<close>

definition next_completes_normally ::
  "'w platform \<Rightarrow> request \<Rightarrow> 'w run_state \<Rightarrow> 'w \<Rightarrow> jsstring \<Rightarrow> jsstring \<times> jsstring \<Rightarrow> 'w
     \<Rightarrow> jsstring \<Rightarrow> jsvalue \<Rightarrow> bool" where
  "next_completes_normally P req s wm cmd streams wx jsonData parsed =
     (req_method req = ascii ''POST''
      \<and> truthy (get_prop (body req) (ascii ''nama''))
      \<and> truthy (get_prop (body req) (ascii ''durasi''))
      \<and> truthy (get_prop (body req) (ascii ''level''))
      \<and> truthy (get_prop (body req) (ascii ''deskripsi''))
      \<and> fs_mkdir P (next_tempDir P) (world s) = (Inr (), wm)
      \<and> next_pythonCmd P (get_prop (body req) (ascii ''nama''))
            (get_prop (body req) (ascii ''durasi'')) (get_prop (body req) (ascii ''level''))
            (get_prop (body req) (ascii ''additional_context''))
            (next_outputPath P (clock P (ticks s))) = Inr cmd
      \<and> exec P cmd 300000 wm = (Inr streams, wx)
      \<and> fs_readFile_utf8 P (next_outputPath P (clock P (ticks s))) wx = Inr jsonData
      \<and> JSON_parse (builtins P) jsonData = Inr parsed)"

definition express_completes_normally ::
  "'w platform \<Rightarrow> request \<Rightarrow> 'w run_state \<Rightarrow> 'w \<Rightarrow> jsstring \<Rightarrow> jsstring \<Rightarrow> jsstring \<times> jsstring
     \<Rightarrow> 'w \<Rightarrow> jsstring \<Rightarrow> jsvalue \<Rightarrow> bool" where
  "express_completes_normally P req s wm ctx cmd streams wx jsonData parsed =
     (truthy (get_prop (body req) (ascii ''nama''))
      \<and> truthy (get_prop (body req) (ascii ''durasi''))
      \<and> truthy (get_prop (body req) (ascii ''level''))
      \<and> truthy (get_prop (body req) (ascii ''deskripsi''))
      \<and> fs_mkdir P (express_tempDir P) (world s) = (Inr (), wm)
      \<and> express_context P (get_prop (body req) (ascii ''additional_context'')) = Inr ctx
      \<and> express_pythonCmd P (get_prop (body req) (ascii ''nama''))
            (get_prop (body req) (ascii ''durasi'')) (get_prop (body req) (ascii ''level''))
            ctx (express_outputPath P (clock P (ticks s))) = Inr cmd
      \<and> exec P cmd 300000 wm = (Inr streams, wx)
      \<and> fs_access P (express_outputPath P (clock P (ticks s))) wx = Inr ()
      \<and> fs_readFile_utf8 P (express_outputPath P (clock P (ticks s))) wx = Inr jsonData
      \<and> JSON_parse (builtins P) jsonData = Inr parsed)"

definition convert_completes_normally ::
  "'w platform \<Rightarrow> request \<Rightarrow> 'w run_state \<Rightarrow> 'w \<Rightarrow> jsstring \<times> jsstring \<Rightarrow> 'w \<Rightarrow> 8 word list
     \<Rightarrow> bool" where
  "convert_completes_normally P req s wm streams wx docxBuffer =
     (truthy (body req)
      \<and> truthy (get_prop (body req) (ascii ''identitas''))
      \<and> fs_writeFile P (convert_jsonPath P (clock P (ticks s)))
            (JSON_stringify (builtins P) (body req)) (world s) = (Inr (), wm)
      \<and> exec P (convert_pythonCmd P (convert_jsonPath P (clock P (ticks s)))
                   (convert_docxPath P (clock P (ticks s)))) 60000 wm = (Inr streams, wx)
      \<and> fs_readFile P (convert_docxPath P (clock P (ticks s))) wx = Inr docxBuffer)"

text \<open>A body without one of its fields.\<close>

definition without_field :: "jsstring \<Rightarrow> (jsstring \<times> jsvalue) list \<Rightarrow> (jsstring \<times> jsvalue) list" where
  "without_field k kvs = filter (\<lambda>p. fst p \<noteq> k) kvs"


section \<open>Facts about strings\<close>

lemma dropWhile_Nil_iff: "dropWhile P xs = [] \<longleftrightarrow> list_all P xs"
  by (induction xs) auto

lemma list_all_dropWhile: "list_all P (dropWhile P xs) \<longleftrightarrow> list_all P xs"
  by (induction xs) auto

lemma trim_empty_iff: "trim s = [] \<longleftrightarrow> whitespace_only s"
proof -
  have "trim s = [] \<longleftrightarrow> dropWhile is_ws (rev (dropWhile is_ws s)) = []"
    by (simp add: trim_def)
  also have "\<dots> \<longleftrightarrow> list_all is_ws (dropWhile is_ws s)"
    by (simp add: dropWhile_Nil_iff list_all_iff)
  also have "\<dots> \<longleftrightarrow> list_all is_ws s"
    by (rule list_all_dropWhile)
  finally show ?thesis
    by (simp add: whitespace_only_def)
qed


section \<open>Facts about the control flow\<close>

lemma truthy_destructurable: "truthy (get_prop b k) \<Longrightarrow> destructurable b"
  by (cases b) simp_all

lemma and_then_lift_Inr: "and_then (lift (Inr a)) f s = f a s"
  by (simp add: and_then_def lift_def ret_def)

lemma and_then_Date_now:
  "and_then (Date_now P) f s = f (clock P (ticks s)) (s\<lparr>ticks := Suc (ticks s)\<rparr>)"
  by (simp add: and_then_def Date_now_def)

lemma and_then_emit: "and_then (emit ev) f s = f () (s\<lparr>trace := trace s @ [ev]\<rparr>)"
  by (simp add: and_then_def emit_def)

lemma and_then_res_json:
  "and_then (res_json status v) f s =
     f () (s\<lparr>trace := trace s @ [Respond status (JsonBody v)]\<rparr>)"
  by (simp add: res_json_def and_then_emit)

lemma and_then_sys_Inr:
  "g (world s) = (Inr a, w') \<Longrightarrow>
   and_then (sys ev g) f s = f a (s\<lparr>world := w', trace := trace s @ [ev]\<rparr>)"
  by (simp add: and_then_def sys_def)

lemma and_then_sys_read_Inr:
  "g (world s) = Inr a \<Longrightarrow>
   and_then (sys_read ev g) f s = f a (s\<lparr>trace := trace s @ [ev]\<rparr>)"
  by (simp add: and_then_def sys_read_def)

lemma and_then_catch_sys_Inr:
  "g (world s) = (Inr a, w') \<Longrightarrow>
   and_then (try_catch (sys ev g) h) f s = f a (s\<lparr>world := w', trace := trace s @ [ev]\<rparr>)"
  by (simp add: and_then_def try_catch_def sys_def)

lemma and_then_catch_sys_read_Inr:
  "g (world s) = Inr a \<Longrightarrow>
   and_then (try_catch (sys_read ev g) h) f s = f a (s\<lparr>trace := trace s @ [ev]\<rparr>)"
  by (simp add: and_then_def try_catch_def sys_read_def)

text \<open>An unlink whose failure is swallowed continues in either case, in the world it left.\<close>

lemma and_then_unlink_ignored:
  "and_then (try_catch (sys (Unlink p) g) (\<lambda>_. ret ())) f s =
     f () (s\<lparr>world := snd (g (world s)), trace := trace s @ [Unlink p]\<rparr>)"
  by (simp add: and_then_def try_catch_def sys_def ret_def split: prod.splits sum.splits)

lemma try_catch_Returned: "m s = (Returned, s') \<Longrightarrow> try_catch m h s = (Returned, s')"
  by (simp add: try_catch_def)

lemma plus_ticks:
  "n + 2 = Suc (Suc n)" "n + 3 = Suc (Suc (Suc n))" "n + 4 = Suc (Suc (Suc (Suc n)))"
  "n + 5 = Suc (Suc (Suc (Suc (Suc n))))"
  by simp_all

lemma responses_append: "responses (xs @ ys) = responses xs @ responses ys"
  by (induction xs rule: responses.induct) simp_all

lemma rejects_props_with_prop: "rejects_props strict (with_prop v k x) = rejects_props strict v"
  by (cases v) simp_all

lemma assign_prop_ok:
  "\<not> rejects_props strict v \<Longrightarrow> assign_prop P strict v k x = Inr (with_prop v k x)"
  by (simp add: assign_prop_def)

lemma lookup_without_field_same: "lookup (without_field k kvs) k = JUndefined"
  by (induction kvs) (auto simp: without_field_def)

lemma decimal_clock: "decimal 1700000000000 = ascii ''1700000000000''"
  by (simp add: decimal.simps ascii_def)


section \<open>Runs of the handlers\<close>

lemma handler_not_post:
  "req_method req \<noteq> ascii ''POST'' \<Longrightarrow>
   handler P req s =
     (Returned,
      s\<lparr>trace := trace s @ [Respond 405 (JsonBody (failure (ascii ''Method not allowed'')))]\<rparr>)"
  by (simp add: handler_def and_then_res_json return_void_def)

lemma handler_falsy:
  assumes "req_method req = ascii ''POST''" and "destructurable (body req)"
    and "\<not> truthy (get_prop (body req) (ascii ''nama''))
         \<or> \<not> truthy (get_prop (body req) (ascii ''durasi''))
         \<or> \<not> truthy (get_prop (body req) (ascii ''level''))
         \<or> \<not> truthy (get_prop (body req) (ascii ''deskripsi''))"
  shows "handler P req s =
     (Returned,
      s\<lparr>trace := trace s @
         [Respond 400 (JsonBody (failure (ascii ''Missing required fields'')))]\<rparr>)"
  using assms
  by (simp add: handler_def Let_def try_catch_def and_then_res_json return_void_def)

lemma express_falsy:
  assumes "destructurable (body req)"
    and "\<not> truthy (get_prop (body req) (ascii ''nama''))
         \<or> \<not> truthy (get_prop (body req) (ascii ''durasi''))
         \<or> \<not> truthy (get_prop (body req) (ascii ''level''))
         \<or> \<not> truthy (get_prop (body req) (ascii ''deskripsi''))"
  shows "express_generate_bootcamp P req s =
     (Returned,
      s\<lparr>trace := trace s @
         [Respond 400 (JsonBody (failure
            (ascii ''Missing required fields: nama, durasi, level, deskripsi'')))]\<rparr>)"
  using assms
  by (simp add: express_generate_bootcamp_def Let_def try_catch_def and_then_res_json
      return_void_def)

lemma next_success_run:
  assumes "next_completes_normally P req s wm cmd streams wx jsonData parsed"
    and "\<not> rejects_props True parsed"
  shows "handler P req s =
     (Returned,
      s\<lparr>world := snd (fs_unlink P (next_outputPath P (clock P (ticks s))) wx),
        ticks := ticks s + 5,
        trace := trace s @
         [Mkdir (next_tempDir P), Exec cmd 300000,
          ReadFile (next_outputPath P (clock P (ticks s))),
          Unlink (next_outputPath P (clock P (ticks s))),
          Respond 200 (JsonBody (success
            (with_prop (with_prop (with_prop (with_prop parsed
               (ascii ''identitas'')
               (next_identitas (get_prop (body req) (ascii ''nama''))
                  (get_prop (body req) (ascii ''durasi''))
                  (get_prop (body req) (ascii ''level'')) (clock P (ticks s + 1))))
               (ascii ''id'') (JStr (ascii ''boot-'' @ decimal (clock P (ticks s + 2)))))
               (ascii ''createdAt'') (JStr (toISOString P (clock P (ticks s + 3)))))
               (ascii ''updatedAt'') (JStr (toISOString P (clock P (ticks s + 4)))))))]\<rparr>)"
proof -
  from assms have d: "destructurable (body req)"
    by (auto simp: next_completes_normally_def dest: truthy_destructurable)
  from assms have m: "req_method req = ascii ''POST''"
    by (simp add: next_completes_normally_def)
  show ?thesis
    unfolding handler_def
    apply (simp only: m not_True_eq_False simp_thms if_False)
    apply (rule try_catch_Returned)
    using assms d
    apply (simp add: next_completes_normally_def Let_def and_then_Date_now and_then_sys_Inr
        and_then_lift_Inr and_then_sys_read_Inr and_then_unlink_ignored and_then_res_json
        return_void_def plus_ticks assign_prop_ok rejects_props_with_prop)
    done
qed

lemma express_success_run:
  assumes "express_completes_normally P req s wm ctx cmd streams wx jsonData parsed"
    and "\<not> rejects_props False parsed"
  shows "express_generate_bootcamp P req s =
     (Returned,
      s\<lparr>world := snd (fs_unlink P (express_outputPath P (clock P (ticks s))) wx),
        ticks := ticks s + 5,
        trace := trace s @
         [Mkdir (express_tempDir P), Exec cmd 300000,
          Access (express_outputPath P (clock P (ticks s))),
          ReadFile (express_outputPath P (clock P (ticks s))),
          Unlink (express_outputPath P (clock P (ticks s))),
          Respond 200 (JsonBody (success
            (with_prop (with_prop (with_prop (with_prop parsed
               (ascii ''identitas'')
               (express_identitas (get_prop (body req) (ascii ''nama''))
                  (get_prop (body req) (ascii ''durasi''))
                  (get_prop (body req) (ascii ''level'')) (clock P (ticks s + 1))))
               (ascii ''id'') (JStr (ascii ''boot-'' @ decimal (clock P (ticks s + 2)))))
               (ascii ''createdAt'') (JStr (toISOString P (clock P (ticks s + 3)))))
               (ascii ''updatedAt'') (JStr (toISOString P (clock P (ticks s + 4)))))))]\<rparr>)"
proof -
  from assms have d: "destructurable (body req)"
    by (auto simp: express_completes_normally_def dest: truthy_destructurable)
  show ?thesis
    unfolding express_generate_bootcamp_def
    apply (rule try_catch_Returned)
    using assms d
    apply (cases streams)
    apply (simp add: express_completes_normally_def Let_def and_then_Date_now
        and_then_sys_Inr and_then_lift_Inr and_then_catch_sys_Inr and_then_catch_sys_read_Inr
        and_then_sys_read_Inr and_then_unlink_ignored and_then_res_json return_void_def
        plus_ticks assign_prop_ok rejects_props_with_prop)
    done
qed

lemma convert_success_run:
  assumes "convert_completes_normally P req s wm streams wx docxBuffer"
  shows "express_convert_to_docx P req s =
     (Returned,
      s\<lparr>world := snd (fs_unlink P (convert_docxPath P (clock P (ticks s)))
                    (snd (fs_unlink P (convert_jsonPath P (clock P (ticks s))) wx))),
        ticks := ticks s + 1,
        trace := trace s @
         [WriteFile (convert_jsonPath P (clock P (ticks s)))
            (JSON_stringify (builtins P) (body req)),
          Exec (convert_pythonCmd P (convert_jsonPath P (clock P (ticks s)))
                  (convert_docxPath P (clock P (ticks s)))) 60000,
          ReadFile (convert_docxPath P (clock P (ticks s))),
          Unlink (convert_jsonPath P (clock P (ticks s))),
          Unlink (convert_docxPath P (clock P (ticks s))),
          SetHeader (ascii ''Content-Type'') (ascii
            ''application/vnd.openxmlformats-officedocument.wordprocessingml.document''),
          SetHeader (ascii ''Content-Disposition'')
            (ascii ''attachment; filename='' @ quoted (ascii ''bootcamp_curriculum.docx'')),
          Respond 200 (BufferBody docxBuffer)]\<rparr>)"
  unfolding express_convert_to_docx_def
  apply (rule try_catch_Returned)
  using assms
  apply (simp add: convert_completes_normally_def Let_def and_then_Date_now and_then_sys_Inr
      and_then_sys_read_Inr and_then_unlink_ignored and_then_emit return_void_def)
  done

lemma convert_reject:
  assumes "\<not> truthy (body req) \<or> \<not> truthy (get_prop (body req) (ascii ''identitas''))"
  shows "express_convert_to_docx P req s =
     (Returned,
      s\<lparr>trace := trace s @
         [Respond 400 (JsonBody (failure (ascii ''Invalid bootcamp data'')))]\<rparr>)"
  using assms
  by (simp add: express_convert_to_docx_def Let_def try_catch_def and_then_res_json
      return_void_def)


section \<open>Validation of the form\<close>

text \<open>
  Claim C1. \<open>validate\<close> returns true exactly when the name has content, the duration
  lies in 1..24 and the description has content, and that is exactly when the new
  error object is empty. The new error object has the entry of \<open>nama\<close> exactly when
  the name is empty or white space only, the entry of \<open>durasi\<close> exactly when the
  duration is below 1 or above 24, the entry of \<open>deskripsi\<close> exactly when the
  description is empty or white space only, each decided by its own field alone, and
  never an entry for \<open>level\<close> or \<open>additional_context\<close>. No key occurs twice, and
  the form record is not changed.
\<close>

theorem validate_exact_errors:
  "fst (validate st) =
     (\<not> whitespace_only (nama (formData st))
      \<and> 1 \<le> durasi (formData st) \<and> durasi (formData st) \<le> 24
      \<and> \<not> whitespace_only (deskripsi (formData st)))
   \<and> fst (validate st) = (errors (snd (validate st)) = [])
   \<and> map_of (errors (snd (validate st))) Nama =
       (if whitespace_only (nama (formData st))
        then Some (ascii ''Nama bootcamp wajib diisi'') else None)
   \<and> map_of (errors (snd (validate st))) Durasi =
       (if durasi (formData st) < 1 \<or> 24 < durasi (formData st)
        then Some (ascii ''Durasi harus antara 1-24 minggu'') else None)
   \<and> map_of (errors (snd (validate st))) Deskripsi =
       (if whitespace_only (deskripsi (formData st))
        then Some (ascii ''Deskripsi bootcamp wajib diisi'') else None)
   \<and> map_of (errors (snd (validate st))) Level = None
   \<and> map_of (errors (snd (validate st))) Additional_context = None
   \<and> distinct (map fst (errors (snd (validate st))))
   \<and> formData (snd (validate st)) = formData st"
  by (auto simp: validate_def Let_def trim_empty_iff)

theorem validate_exact_errors_witness:
  "fst (validate \<lparr>formData = \<lparr>nama = ascii '' '', durasi = 25, level = ascii ''Beginner'',
                     deskripsi = ascii ''Learn web dev'', additional_context = []\<rparr>,
                   errors = []\<rparr>) = False
   \<and> errors (snd (validate \<lparr>formData = \<lparr>nama = ascii '' '', durasi = 25,
                     level = ascii ''Beginner'', deskripsi = ascii ''Learn web dev'',
                     additional_context = []\<rparr>, errors = []\<rparr>))
     = [(Nama, ascii ''Nama bootcamp wajib diisi''),
        (Durasi, ascii ''Durasi harus antara 1-24 minggu'')]
   \<and> fst (validate \<lparr>formData = \<lparr>nama = ascii ''Web Dev'', durasi = 8,
                     level = ascii ''Beginner'', deskripsi = ascii ''Learn web dev'',
                     additional_context = []\<rparr>, errors = [(Nama, ascii ''x'')]\<rparr>) = True
   \<and> errors (snd (validate \<lparr>formData = \<lparr>nama = ascii ''Web Dev'', durasi = 8,
                     level = ascii ''Beginner'', deskripsi = ascii ''Learn web dev'',
                     additional_context = []\<rparr>, errors = [(Nama, ascii ''x'')]\<rparr>)) = []"
  using validate_exact_errors
    [of "\<lparr>formData = \<lparr>nama = ascii '' '', durasi = 25, level = ascii ''Beginner'',
            deskripsi = ascii ''Learn web dev'', additional_context = []\<rparr>, errors = []\<rparr>"]
    validate_exact_errors
    [of "\<lparr>formData = \<lparr>nama = ascii ''Web Dev'', durasi = 8, level = ascii ''Beginner'',
            deskripsi = ascii ''Learn web dev'', additional_context = []\<rparr>,
          errors = [(Nama, ascii ''x'')]\<rparr>"]
  by (simp add: validate_def Let_def trim_def is_ws_def ascii_def)


section \<open>Submitting and generating\<close>

text \<open>
  Claim C8. \<open>handleSubmit\<close> and \<open>handleGenerateAI\<close> both run \<open>validate\<close> first:
  the state they leave is the one \<open>validate\<close> leaves (only the error object is
  new, the form record is the same). \<open>handleSubmit\<close> calls \<open>onSubmit\<close> once with
  the current form record when \<open>validate\<close> returns true and calls no handler when
  it returns false; besides that it only cancels the browser's default submission.
  Where the generate button is rendered, \<open>handleGenerateAI\<close> calls
  \<open>onGenerateAI\<close> once with the current form record when \<open>validate\<close> returns
  true, and has no effect at all besides the new error object when it returns false.
\<close>

theorem handlers_gated_by_validate:
  "fst (handleSubmit st) = snd (validate st)
   \<and> formData (fst (handleSubmit st)) = formData st
   \<and> snd (handleSubmit st) =
       (if fst (validate st) then [PreventDefault, CallOnSubmit (formData st)]
        else [PreventDefault])
   \<and> handler_calls (snd (handleSubmit st)) =
       (if fst (validate st) then [CallOnSubmit (formData st)] else [])
   \<and> (generate_button_rendered p \<longrightarrow>
        fst (handleGenerateAI p st) = snd (validate st)
        \<and> formData (fst (handleGenerateAI p st)) = formData st
        \<and> snd (handleGenerateAI p st) =
            (if fst (validate st) then [CallOnGenerateAI (formData st)] else []))"
  by (auto simp: handleSubmit_def handleGenerateAI_def handler_calls_def
      generate_button_rendered_def validate_def Let_def split: prod.splits)

theorem handlers_gated_by_validate_witness:
  "generate_button_rendered \<lparr>has_onGenerateAI = True, loading = False\<rparr>
   \<and> snd (handleSubmit \<lparr>formData = \<lparr>nama = ascii ''Web Dev'', durasi = 8,
                     level = ascii ''Beginner'', deskripsi = ascii ''Learn web dev'',
                     additional_context = []\<rparr>, errors = []\<rparr>)
     = [PreventDefault, CallOnSubmit \<lparr>nama = ascii ''Web Dev'', durasi = 8,
                     level = ascii ''Beginner'', deskripsi = ascii ''Learn web dev'',
                     additional_context = []\<rparr>]
   \<and> snd (handleGenerateAI \<lparr>has_onGenerateAI = True, loading = False\<rparr>
            \<lparr>formData = \<lparr>nama = ascii ''Web Dev'', durasi = 8,
                     level = ascii ''Beginner'', deskripsi = ascii ''Learn web dev'',
                     additional_context = []\<rparr>, errors = []\<rparr>)
     = [CallOnGenerateAI \<lparr>nama = ascii ''Web Dev'', durasi = 8,
                     level = ascii ''Beginner'', deskripsi = ascii ''Learn web dev'',
                     additional_context = []\<rparr>]"
  using handlers_gated_by_validate
    [of "\<lparr>formData = \<lparr>nama = ascii ''Web Dev'', durasi = 8, level = ascii ''Beginner'',
            deskripsi = ascii ''Learn web dev'', additional_context = []\<rparr>, errors = []\<rparr>"
        "\<lparr>has_onGenerateAI = True, loading = False\<rparr>"]
  by (simp add: generate_button_rendered_def validate_def Let_def trim_def is_ws_def
      ascii_def)


section \<open>Loading a file into the editor\<close>

text \<open>
  Claim C5. When the text of the selected file does not parse as JSON, the load
  leaves the in-memory document and the editor buffer as they were and shows the
  alert "Error loading JSON: Invalid format". When it parses, the document becomes
  the parsed value, the buffer becomes the raw text of the file, and the success
  alert is shown.
\<close>

theorem handleLoadJson_parse_cases:
  "(case JSON_parse J content of
      Inl err \<Rightarrow>
        fst (handleLoadJson J st (FileText content)) = st
        \<and> snd (handleLoadJson J st (FileText content)) = [Alert msg_load_invalid]
    | Inr parsed \<Rightarrow>
        generatedData (fst (handleLoadJson J st (FileText content))) = parsed
        \<and> jsonContent (fst (handleLoadJson J st (FileText content))) = content
        \<and> snd (handleLoadJson J st (FileText content)) = [Alert msg_loaded])"
  by (simp add: handleLoadJson_def split: sum.splits)

theorem handleLoadJson_parse_cases_witness:
  "fst (handleLoadJson ecma_sample
          \<lparr>generatedData = JBool True, jsonContent = ascii ''true''\<rparr> (FileText (ascii ''{'')))
     = \<lparr>generatedData = JBool True, jsonContent = ascii ''true''\<rparr>
   \<and> snd (handleLoadJson ecma_sample
          \<lparr>generatedData = JBool True, jsonContent = ascii ''true''\<rparr> (FileText (ascii ''{'')))
     = [Alert msg_load_invalid]
   \<and> fst (handleLoadJson ecma_sample
          \<lparr>generatedData = JBool True, jsonContent = ascii ''true''\<rparr> (FileText (ascii ''null'')))
     = \<lparr>generatedData = JNull, jsonContent = ascii ''null''\<rparr>"
  using handleLoadJson_parse_cases
    [where J = ecma_sample and content = "ascii ''{''"
       and st = "\<lparr>generatedData = JBool True, jsonContent = ascii ''true''\<rparr>"]
    handleLoadJson_parse_cases
    [where J = ecma_sample and content = "ascii ''null''"
       and st = "\<lparr>generatedData = JBool True, jsonContent = ascii ''true''\<rparr>"]
  by (simp add: ecma_sample_def ascii_def handleLoadJson_def)


section \<open>Loading and saving without edits\<close>





section \<open>The generate endpoint: requests that are turned away\<close>

text \<open>
  Claim C9. For a request whose method is not POST, the Next.js route sends status
  405 with the body \<open>{success: false, error: "Method not allowed"}\<close> and returns:
  the response is the only event, so the body is not looked at, nothing is read or
  written and no subprocess is started, and the world and the clock are untouched.
\<close>

theorem handler_rejects_other_methods:
  "req_method req \<noteq> ascii ''POST'' \<Longrightarrow>
   handler P req s =
     (Returned,
      s\<lparr>trace := trace s @ [Respond 405 (JsonBody (failure (ascii ''Method not allowed'')))]\<rparr>)"
  by (rule handler_not_post)

theorem handler_rejects_other_methods_witness:
  "handler (sim script_fails) \<lparr>req_method = ascii ''GET'', body = web_dev_body\<rparr> (start []) =
     (Returned,
      \<lparr>world = [], ticks = 0,
       trace = [Respond 405 (JsonBody (JObj [(ascii ''success'', JBool False),
                  (ascii ''error'', JStr (ascii ''Method not allowed''))]))]\<rparr>)"
proof -
  have h: "req_method \<lparr>req_method = ascii ''GET'', body = web_dev_body\<rparr> \<noteq> ascii ''POST''"
    by (simp add: ascii_def)
  from handler_rejects_other_methods [OF h, of "sim script_fails" "start []"]
  show ?thesis
    by (simp add: start_def failure_def)
qed

text \<open>
  Claim C3, as stated, fails for the Express server: with \<open>deskripsi\<close> missing it
  answers 400, but its error text is
  "Missing required fields: nama, durasi, level, deskripsi", not
  "Missing required fields".
\<close>

theorem express_missing_fields_message_counterexample:
  "express_generate_bootcamp (sim script_fails)
     \<lparr>req_method = ascii ''POST'',
      body = JObj [(ascii ''nama'', JStr (ascii ''Web Dev'')),
                   (ascii ''durasi'', JNum (Finite 8)),
                   (ascii ''level'', JStr (ascii ''Beginner''))]\<rparr> (start []) =
     (Returned,
      \<lparr>world = [], ticks = 0,
       trace = [Respond 400 (JsonBody (failure
                  (ascii ''Missing required fields: nama, durasi, level, deskripsi'')))]\<rparr>)
   \<and> failure (ascii ''Missing required fields: nama, durasi, level, deskripsi'')
       \<noteq> failure (ascii ''Missing required fields'')"
  by (simp add: express_generate_bootcamp_def Let_def try_catch_def and_then_def res_json_def
      emit_def return_void_def start_def failure_def ascii_def)

text \<open>
  Claim C3, amended. For every request to the generate endpoint whose body is a
  value other than null and undefined and lacks at least one of \<open>nama\<close>,
  \<open>durasi\<close>, \<open>level\<close>, \<open>deskripsi\<close>: the Next.js route, when the method is
  POST, sends status 400 with exactly \<open>{success: false, error: "Missing required fields"}\<close>,
  and the Express server sends status 400 with
  \<open>{success: false, error: "Missing required fields: nama, durasi, level, deskripsi"}\<close>.
  In both the response is the only event: no subprocess is started.
\<close>

theorem missing_field_rejected:
  assumes "destructurable (body req)"
    and "get_prop (body req) (ascii ''nama'') = JUndefined
         \<or> get_prop (body req) (ascii ''durasi'') = JUndefined
         \<or> get_prop (body req) (ascii ''level'') = JUndefined
         \<or> get_prop (body req) (ascii ''deskripsi'') = JUndefined"
  shows "(req_method req = ascii ''POST'' \<longrightarrow>
            handler P req s =
              (Returned,
               s\<lparr>trace := trace s @
                  [Respond 400 (JsonBody (failure (ascii ''Missing required fields'')))]\<rparr>))
         \<and> express_generate_bootcamp P req s =
              (Returned,
               s\<lparr>trace := trace s @
                  [Respond 400 (JsonBody (failure
                     (ascii ''Missing required fields: nama, durasi, level, deskripsi'')))]\<rparr>)"
proof -
  from assms(2)
  have f: "\<not> truthy (get_prop (body req) (ascii ''nama''))
         \<or> \<not> truthy (get_prop (body req) (ascii ''durasi''))
         \<or> \<not> truthy (get_prop (body req) (ascii ''level''))
         \<or> \<not> truthy (get_prop (body req) (ascii ''deskripsi''))"
    by auto
  show ?thesis
  proof (intro conjI impI)
    assume "req_method req = ascii ''POST''"
    then show "handler P req s =
              (Returned,
               s\<lparr>trace := trace s @
                  [Respond 400 (JsonBody (failure (ascii ''Missing required fields'')))]\<rparr>)"
      using assms(1) f by (rule handler_falsy)
  next
    show "express_generate_bootcamp P req s =
              (Returned,
               s\<lparr>trace := trace s @
                  [Respond 400 (JsonBody (failure
                     (ascii ''Missing required fields: nama, durasi, level, deskripsi'')))]\<rparr>)"
      using assms(1) f by (rule express_falsy)
  qed
qed

theorem missing_field_rejected_witness:
  "destructurable (JObj [(ascii ''nama'', JStr (ascii ''Web Dev'')),
                         (ascii ''durasi'', JNum (Finite 8)),
                         (ascii ''level'', JStr (ascii ''Beginner''))])
   \<and> get_prop (JObj [(ascii ''nama'', JStr (ascii ''Web Dev'')),
                     (ascii ''durasi'', JNum (Finite 8)),
                     (ascii ''level'', JStr (ascii ''Beginner''))]) (ascii ''deskripsi'')
       = JUndefined
   \<and> handler (sim script_fails)
        \<lparr>req_method = ascii ''POST'',
         body = JObj [(ascii ''nama'', JStr (ascii ''Web Dev'')),
                      (ascii ''durasi'', JNum (Finite 8)),
                      (ascii ''level'', JStr (ascii ''Beginner''))]\<rparr> (start []) =
        (Returned,
         \<lparr>world = [], ticks = 0,
          trace = [Respond 400 (JsonBody (JObj [(ascii ''success'', JBool False),
                     (ascii ''error'', JStr (ascii ''Missing required fields''))]))]\<rparr>)"
proof -
  let ?b = "JObj [(ascii ''nama'', JStr (ascii ''Web Dev'')),
                  (ascii ''durasi'', JNum (Finite 8)),
                  (ascii ''level'', JStr (ascii ''Beginner''))]"
  let ?req = "\<lparr>req_method = ascii ''POST'', body = ?b\<rparr>"
  have d: "destructurable (body ?req)"
    by simp
  have g: "get_prop ?b (ascii ''deskripsi'') = JUndefined"
    by (simp add: ascii_def)
  then have m: "get_prop (body ?req) (ascii ''nama'') = JUndefined
         \<or> get_prop (body ?req) (ascii ''durasi'') = JUndefined
         \<or> get_prop (body ?req) (ascii ''level'') = JUndefined
         \<or> get_prop (body ?req) (ascii ''deskripsi'') = JUndefined"
    by simp
  from missing_field_rejected [OF d m, of "sim script_fails" "start []"] g
  show ?thesis
    by (simp add: start_def failure_def)
qed

text \<open>
  Claim C10. When the body is an object in which one of \<open>nama\<close>, \<open>durasi\<close>,
  \<open>level\<close>, \<open>deskripsi\<close> is falsy (the empty string, the number 0, or any other
  falsy value), both variants of the generate endpoint send their 400 response for
  missing fields, and the whole run is the same as for the body from which that field
  has been taken out. (The Next.js route does so for POST requests.)
\<close>

theorem falsy_field_rejected_like_absent:
  assumes "body req = JObj kvs"
    and "k \<in> set [ascii ''nama'', ascii ''durasi'', ascii ''level'', ascii ''deskripsi'']"
    and "\<not> truthy (lookup kvs k)"
  shows "(req_method req = ascii ''POST'' \<longrightarrow>
            handler P req s =
              (Returned,
               s\<lparr>trace := trace s @
                  [Respond 400 (JsonBody (failure (ascii ''Missing required fields'')))]\<rparr>)
            \<and> handler P (req\<lparr>body := JObj (without_field k kvs)\<rparr>) s = handler P req s)
         \<and> express_generate_bootcamp P req s =
              (Returned,
               s\<lparr>trace := trace s @
                  [Respond 400 (JsonBody (failure
                     (ascii ''Missing required fields: nama, durasi, level, deskripsi'')))]\<rparr>)
         \<and> express_generate_bootcamp P (req\<lparr>body := JObj (without_field k kvs)\<rparr>) s
             = express_generate_bootcamp P req s"
proof -
  let ?req' = "req\<lparr>body := JObj (without_field k kvs)\<rparr>"
  have d: "destructurable (body req)" and d': "destructurable (body ?req')"
    using assms(1) by simp_all
  have f: "\<not> truthy (get_prop (body req) (ascii ''nama''))
         \<or> \<not> truthy (get_prop (body req) (ascii ''durasi''))
         \<or> \<not> truthy (get_prop (body req) (ascii ''level''))
         \<or> \<not> truthy (get_prop (body req) (ascii ''deskripsi''))"
    using assms by auto
  have "\<not> truthy (get_prop (body ?req') k)"
    by (simp add: lookup_without_field_same)
  then have f': "\<not> truthy (get_prop (body ?req') (ascii ''nama''))
         \<or> \<not> truthy (get_prop (body ?req') (ascii ''durasi''))
         \<or> \<not> truthy (get_prop (body ?req') (ascii ''level''))
         \<or> \<not> truthy (get_prop (body ?req') (ascii ''deskripsi''))"
    using assms(2) by auto
  have e: "express_generate_bootcamp P req s =
              (Returned,
               s\<lparr>trace := trace s @
                  [Respond 400 (JsonBody (failure
                     (ascii ''Missing required fields: nama, durasi, level, deskripsi'')))]\<rparr>)"
    using d f by (rule express_falsy)
  have e': "express_generate_bootcamp P ?req' s =
              (Returned,
               s\<lparr>trace := trace s @
                  [Respond 400 (JsonBody (failure
                     (ascii ''Missing required fields: nama, durasi, level, deskripsi'')))]\<rparr>)"
    using d' f' by (rule express_falsy)
  have n: "handler P req s =
              (Returned,
               s\<lparr>trace := trace s @
                  [Respond 400 (JsonBody (failure (ascii ''Missing required fields'')))]\<rparr>)"
       and n': "handler P ?req' s =
              (Returned,
               s\<lparr>trace := trace s @
                  [Respond 400 (JsonBody (failure (ascii ''Missing required fields'')))]\<rparr>)"
    if "req_method req = ascii ''POST''"
  proof -
    from that d f show "handler P req s =
              (Returned,
               s\<lparr>trace := trace s @
                  [Respond 400 (JsonBody (failure (ascii ''Missing required fields'')))]\<rparr>)"
      by (rule handler_falsy)
    from that have "req_method ?req' = ascii ''POST''"
      by simp
    then show "handler P ?req' s =
              (Returned,
               s\<lparr>trace := trace s @
                  [Respond 400 (JsonBody (failure (ascii ''Missing required fields'')))]\<rparr>)"
      using d' f' by (rule handler_falsy)
  qed
  show ?thesis
    using e e' n n' by simp
qed

theorem falsy_field_rejected_like_absent_witness:
  "\<not> truthy (lookup [(ascii ''nama'', JStr (ascii ''Web Dev'')),
                     (ascii ''durasi'', JNum (Finite 0)),
                     (ascii ''level'', JStr (ascii ''Beginner'')),
                     (ascii ''deskripsi'', JStr (ascii ''Learn web dev''))] (ascii ''durasi''))
   \<and> handler (sim script_fails)
        \<lparr>req_method = ascii ''POST'',
         body = JObj [(ascii ''nama'', JStr (ascii ''Web Dev'')),
                      (ascii ''durasi'', JNum (Finite 0)),
                      (ascii ''level'', JStr (ascii ''Beginner'')),
                      (ascii ''deskripsi'', JStr (ascii ''Learn web dev''))]\<rparr> (start []) =
        (Returned,
         \<lparr>world = [], ticks = 0,
          trace = [Respond 400 (JsonBody (JObj [(ascii ''success'', JBool False),
                     (ascii ''error'', JStr (ascii ''Missing required fields''))]))]\<rparr>)
   \<and> handler (sim script_fails)
        \<lparr>req_method = ascii ''POST'',
         body = JObj [(ascii ''nama'', JStr (ascii ''Web Dev'')),
                      (ascii ''level'', JStr (ascii ''Beginner'')),
                      (ascii ''deskripsi'', JStr (ascii ''Learn web dev''))]\<rparr> (start []) =
       handler (sim script_fails)
        \<lparr>req_method = ascii ''POST'',
         body = JObj [(ascii ''nama'', JStr (ascii ''Web Dev'')),
                      (ascii ''durasi'', JNum (Finite 0)),
                      (ascii ''level'', JStr (ascii ''Beginner'')),
                      (ascii ''deskripsi'', JStr (ascii ''Learn web dev''))]\<rparr> (start [])"
proof -
  let ?kvs = "[(ascii ''nama'', JStr (ascii ''Web Dev'')),
               (ascii ''durasi'', JNum (Finite 0)),
               (ascii ''level'', JStr (ascii ''Beginner'')),
               (ascii ''deskripsi'', JStr (ascii ''Learn web dev''))]"
  let ?req = "\<lparr>req_method = ascii ''POST'', body = JObj ?kvs\<rparr>"
  have b: "body ?req = JObj ?kvs"
    by simp
  have k: "ascii ''durasi''
             \<in> set [ascii ''nama'', ascii ''durasi'', ascii ''level'', ascii ''deskripsi'']"
    by simp
  have z: "\<not> truthy (lookup ?kvs (ascii ''durasi''))"
    by (simp add: ascii_def)
  have w: "without_field (ascii ''durasi'') ?kvs =
             [(ascii ''nama'', JStr (ascii ''Web Dev'')),
              (ascii ''level'', JStr (ascii ''Beginner'')),
              (ascii ''deskripsi'', JStr (ascii ''Learn web dev''))]"
    by (simp add: without_field_def ascii_def)
  from falsy_field_rejected_like_absent [OF b k z, of "sim script_fails" "start []"] z w
  show ?thesis
    by (simp add: start_def failure_def)
qed


section \<open>The convert endpoint: documents without an identity block\<close>

text \<open>
  Claim C7. When the body of a convert request is absent, or has no \<open>identitas\<close>,
  the endpoint sends status 400 with exactly
  \<open>{success: false, error: "Invalid bootcamp data"}\<close>. The response is the only
  event: no temp file is written and no subprocess is started, and the world and the
  clock are untouched.
\<close>

theorem convert_rejects_without_identitas:
  assumes "body req = JUndefined \<or> get_prop (body req) (ascii ''identitas'') = JUndefined"
  shows "express_convert_to_docx P req s =
     (Returned,
      s\<lparr>trace := trace s @
         [Respond 400 (JsonBody (failure (ascii ''Invalid bootcamp data'')))]\<rparr>)"
proof -
  from assms
  have "\<not> truthy (body req) \<or> \<not> truthy (get_prop (body req) (ascii ''identitas''))"
    by auto
  then show ?thesis
    by (rule convert_reject)
qed

theorem convert_rejects_without_identitas_witness:
  "get_prop (JObj [(ascii ''modules'', JArr [])]) (ascii ''identitas'') = JUndefined
   \<and> express_convert_to_docx (sim script_fails)
        \<lparr>req_method = ascii ''POST'', body = JObj [(ascii ''modules'', JArr [])]\<rparr> (start []) =
        (Returned,
         \<lparr>world = [], ticks = 0,
          trace = [Respond 400 (JsonBody (JObj [(ascii ''success'', JBool False),
                     (ascii ''error'', JStr (ascii ''Invalid bootcamp data''))]))]\<rparr>)"
proof -
  let ?req = "\<lparr>req_method = ascii ''POST'', body = JObj [(ascii ''modules'', JArr [])]\<rparr>"
  have g: "get_prop (JObj [(ascii ''modules'', JArr [])]) (ascii ''identitas'') = JUndefined"
    by (simp add: ascii_def)
  then have h: "body ?req = JUndefined \<or> get_prop (body ?req) (ascii ''identitas'') = JUndefined"
    by simp
  from convert_rejects_without_identitas [OF h, of "sim script_fails" "start []"] g
  show ?thesis
    by (simp add: start_def failure_def)
qed


section \<open>The generate endpoint: normal completion\<close>

text \<open>
  Claim C2, as stated, fails when the output file parses to something that is not an
  object: the text \<open>[]\<close> parses to the empty array, the subprocess has succeeded,
  and both variants answer \<open>{success: true, data: []}\<close>, in which \<open>data\<close> has no
  \<open>identitas\<close>, no \<open>id\<close> and no timestamps.
\<close>

theorem generate_array_output_counterexample:
  "JSON_parse (builtins (sim (script_writes sample_jsonPath (ascii ''[]'')))) (ascii ''[]'')
     = Inr (JArr [])
   \<and> responses (trace (snd (handler (sim (script_writes sample_jsonPath (ascii ''[]'')))
                              web_dev_request (start []))))
       = [(200, JsonBody (JObj [(ascii ''success'', JBool True), (ascii ''data'', JArr [])]))]
   \<and> responses (trace (snd (express_generate_bootcamp
                              (sim (script_writes sample_jsonPath (ascii ''[]'')))
                              web_dev_request (start []))))
       = [(200, JsonBody (JObj [(ascii ''success'', JBool True), (ascii ''data'', JArr [])]))]
   \<and> get_prop (JArr []) (ascii ''identitas'') = JUndefined"
  by (simp add: and_then_def try_catch_def res_json_def emit_def return_void_def Date_now_def sys_def sys_read_def lift_def ret_def throw_def template_def sum_bind_def join_with_def quoted_def Let_def
      sim_def start_def without_def sim_read_def ecma_sample_def decimal_clock ascii_def
      web_dev_request_def web_dev_body_def script_writes_def sample_jsonPath_def modules_text_def
      handler_def next_outputPath_def next_tempDir_def next_pythonCmd_def next_identitas_def success_def failure_def assign_prop_def
      express_generate_bootcamp_def express_outputPath_def express_tempDir_def express_pythonCmd_def express_identitas_def success_def failure_def assign_prop_def express_context_def python_exe_def slice_last6_def message_or_unknown_def)

text \<open>
  Claim C2, amended. For every execution of the generate endpoint that completes
  normally and whose output file parses to a JSON object, the response has status
  200 and the body \<open>{success: true, data: d}\<close>, where \<open>d\<close> is the parsed object
  with four properties assigned in this order: \<open>identitas\<close> (the request's
  \<open>nama\<close>, a \<open>kode\<close> made of \<open>BOOT-\<close> and the clock reading, in the Express
  server its last six digits, the request's \<open>durasi\<close>, \<open>tipe\<close> "Hybrid", the
  request's \<open>level\<close>, \<open>kapasitas\<close> 25), \<open>id\<close> (\<open>boot-\<close> and the next clock
  reading), \<open>createdAt\<close> and \<open>updatedAt\<close> (the ISO format of the two readings
  after that).
\<close>

theorem generate_success_document:
  "(next_completes_normally P req s wm cmd streams wx jsonData (JObj kvs) \<longrightarrow>
      responses (trace (snd (handler P req s))) =
        responses (trace s) @
        [(200, JsonBody (success (JObj
           (obj_set (ascii ''updatedAt'') (JStr (toISOString P (clock P (ticks s + 4))))
           (obj_set (ascii ''createdAt'') (JStr (toISOString P (clock P (ticks s + 3))))
           (obj_set (ascii ''id'') (JStr (ascii ''boot-'' @ decimal (clock P (ticks s + 2))))
           (obj_set (ascii ''identitas'')
              (JObj [(ascii ''nama'', get_prop (body req) (ascii ''nama'')),
                     (ascii ''kode'', JStr (ascii ''BOOT-'' @ decimal (clock P (ticks s + 1)))),
                     (ascii ''durasi'', get_prop (body req) (ascii ''durasi'')),
                     (ascii ''tipe'', JStr (ascii ''Hybrid'')),
                     (ascii ''level'', get_prop (body req) (ascii ''level'')),
                     (ascii ''kapasitas'', JNum (Finite 25))])
              kvs)))))))])
   \<and> (express_completes_normally P req s wm ctx cmd streams wx jsonData (JObj kvs) \<longrightarrow>
      responses (trace (snd (express_generate_bootcamp P req s))) =
        responses (trace s) @
        [(200, JsonBody (success (JObj
           (obj_set (ascii ''updatedAt'') (JStr (toISOString P (clock P (ticks s + 4))))
           (obj_set (ascii ''createdAt'') (JStr (toISOString P (clock P (ticks s + 3))))
           (obj_set (ascii ''id'') (JStr (ascii ''boot-'' @ decimal (clock P (ticks s + 2))))
           (obj_set (ascii ''identitas'')
              (JObj [(ascii ''nama'', get_prop (body req) (ascii ''nama'')),
                     (ascii ''kode'',
                      JStr (ascii ''BOOT-'' @ slice_last6 (decimal (clock P (ticks s + 1))))),
                     (ascii ''durasi'', get_prop (body req) (ascii ''durasi'')),
                     (ascii ''tipe'', JStr (ascii ''Hybrid'')),
                     (ascii ''level'', get_prop (body req) (ascii ''level'')),
                     (ascii ''kapasitas'', JNum (Finite 25))])
              kvs)))))))])"
proof (intro conjI impI)
  assume a: "next_completes_normally P req s wm cmd streams wx jsonData (JObj kvs)"
  have r: "\<not> rejects_props True (JObj kvs)"
    by simp
  show "responses (trace (snd (handler P req s))) =
        responses (trace s) @
        [(200, JsonBody (success (JObj
           (obj_set (ascii ''updatedAt'') (JStr (toISOString P (clock P (ticks s + 4))))
           (obj_set (ascii ''createdAt'') (JStr (toISOString P (clock P (ticks s + 3))))
           (obj_set (ascii ''id'') (JStr (ascii ''boot-'' @ decimal (clock P (ticks s + 2))))
           (obj_set (ascii ''identitas'')
              (JObj [(ascii ''nama'', get_prop (body req) (ascii ''nama'')),
                     (ascii ''kode'', JStr (ascii ''BOOT-'' @ decimal (clock P (ticks s + 1)))),
                     (ascii ''durasi'', get_prop (body req) (ascii ''durasi'')),
                     (ascii ''tipe'', JStr (ascii ''Hybrid'')),
                     (ascii ''level'', get_prop (body req) (ascii ''level'')),
                     (ascii ''kapasitas'', JNum (Finite 25))])
              kvs)))))))]"
    by (simp add: next_success_run [OF a r] responses_append next_identitas_def)
next
  assume a: "express_completes_normally P req s wm ctx cmd streams wx jsonData (JObj kvs)"
  have r: "\<not> rejects_props False (JObj kvs)"
    by simp
  show "responses (trace (snd (express_generate_bootcamp P req s))) =
        responses (trace s) @
        [(200, JsonBody (success (JObj
           (obj_set (ascii ''updatedAt'') (JStr (toISOString P (clock P (ticks s + 4))))
           (obj_set (ascii ''createdAt'') (JStr (toISOString P (clock P (ticks s + 3))))
           (obj_set (ascii ''id'') (JStr (ascii ''boot-'' @ decimal (clock P (ticks s + 2))))
           (obj_set (ascii ''identitas'')
              (JObj [(ascii ''nama'', get_prop (body req) (ascii ''nama'')),
                     (ascii ''kode'',
                      JStr (ascii ''BOOT-'' @ slice_last6 (decimal (clock P (ticks s + 1))))),
                     (ascii ''durasi'', get_prop (body req) (ascii ''durasi'')),
                     (ascii ''tipe'', JStr (ascii ''Hybrid'')),
                     (ascii ''level'', get_prop (body req) (ascii ''level'')),
                     (ascii ''kapasitas'', JNum (Finite 25))])
              kvs)))))))]"
    by (simp add: express_success_run [OF a r] responses_append express_identitas_def)
qed

text \<open>The scenario of the spec: the script writes \<open>{"modules":[]}\<close>.\<close>

theorem generate_success_document_witness:
  "next_completes_normally (sim (script_writes sample_jsonPath modules_text)) web_dev_request
     (start []) [] sample_next_cmd ([], []) [(sample_jsonPath, modules_text)] modules_text
     (JObj [(ascii ''modules'', JArr [])])
   \<and> responses (trace (snd (handler (sim (script_writes sample_jsonPath modules_text))
                              web_dev_request (start [])))) =
       [(200, JsonBody (JObj [(ascii ''success'', JBool True),
          (ascii ''data'', JObj
            [(ascii ''modules'', JArr []),
             (ascii ''identitas'', JObj
                [(ascii ''nama'', JStr (ascii ''Web Dev'')),
                 (ascii ''kode'', JStr (ascii ''BOOT-1700000000000'')),
                 (ascii ''durasi'', JNum (Finite 8)),
                 (ascii ''tipe'', JStr (ascii ''Hybrid'')),
                 (ascii ''level'', JStr (ascii ''Beginner'')),
                 (ascii ''kapasitas'', JNum (Finite 25))]),
             (ascii ''id'', JStr (ascii ''boot-1700000000000'')),
             (ascii ''createdAt'', JStr (ascii ''2023-11-14T22:13:20.000Z'')),
             (ascii ''updatedAt'', JStr (ascii ''2023-11-14T22:13:20.000Z''))])]))]
   \<and> express_completes_normally (sim (script_writes sample_jsonPath modules_text))
       web_dev_request (start []) [] [] sample_express_cmd ([], [])
       [(sample_jsonPath, modules_text)] modules_text (JObj [(ascii ''modules'', JArr [])])
   \<and> responses (trace (snd (express_generate_bootcamp
                              (sim (script_writes sample_jsonPath modules_text))
                              web_dev_request (start [])))) =
       [(200, JsonBody (JObj [(ascii ''success'', JBool True),
          (ascii ''data'', JObj
            [(ascii ''modules'', JArr []),
             (ascii ''identitas'', JObj
                [(ascii ''nama'', JStr (ascii ''Web Dev'')),
                 (ascii ''kode'', JStr (ascii ''BOOT-000000'')),
                 (ascii ''durasi'', JNum (Finite 8)),
                 (ascii ''tipe'', JStr (ascii ''Hybrid'')),
                 (ascii ''level'', JStr (ascii ''Beginner'')),
                 (ascii ''kapasitas'', JNum (Finite 25))]),
             (ascii ''id'', JStr (ascii ''boot-1700000000000'')),
             (ascii ''createdAt'', JStr (ascii ''2023-11-14T22:13:20.000Z'')),
             (ascii ''updatedAt'', JStr (ascii ''2023-11-14T22:13:20.000Z''))])]))]"
proof -
  let ?P = "sim (script_writes sample_jsonPath modules_text)"
  have n: "next_completes_normally ?P web_dev_request (start []) [] sample_next_cmd ([], [])
             [(sample_jsonPath, modules_text)] modules_text (JObj [(ascii ''modules'', JArr [])])"
    by (simp add: next_completes_normally_def sample_next_cmd_def
        and_then_def try_catch_def res_json_def emit_def return_void_def Date_now_def sys_def sys_read_def lift_def ret_def throw_def template_def sum_bind_def join_with_def quoted_def Let_def
        sim_def start_def without_def sim_read_def ecma_sample_def decimal_clock ascii_def
        web_dev_request_def web_dev_body_def script_writes_def sample_jsonPath_def modules_text_def
        handler_def next_outputPath_def next_tempDir_def next_pythonCmd_def next_identitas_def success_def failure_def assign_prop_def)
  have e: "express_completes_normally ?P web_dev_request (start []) [] [] sample_express_cmd
             ([], []) [(sample_jsonPath, modules_text)] modules_text
             (JObj [(ascii ''modules'', JArr [])])"
    by (simp add: express_completes_normally_def sample_express_cmd_def
        and_then_def try_catch_def res_json_def emit_def return_void_def Date_now_def sys_def sys_read_def lift_def ret_def throw_def template_def sum_bind_def join_with_def quoted_def Let_def
        sim_def start_def without_def sim_read_def ecma_sample_def decimal_clock ascii_def
        web_dev_request_def web_dev_body_def script_writes_def sample_jsonPath_def modules_text_def
        express_generate_bootcamp_def express_outputPath_def express_tempDir_def express_pythonCmd_def express_identitas_def success_def failure_def assign_prop_def express_context_def python_exe_def slice_last6_def message_or_unknown_def)
  note t = generate_success_document
    [where P = ?P and req = web_dev_request and s = "start []" and wm = "[]"
       and wx = "[(sample_jsonPath, modules_text)]" and streams = "([], [])"
       and jsonData = modules_text and kvs = "[(ascii ''modules'', JArr [])]"]
  from t [where cmd = sample_next_cmd, THEN conjunct1, THEN mp, OF n]
  have rn: "responses (trace (snd (handler ?P web_dev_request (start [])))) =
       [(200, JsonBody (JObj [(ascii ''success'', JBool True),
          (ascii ''data'', JObj
            [(ascii ''modules'', JArr []),
             (ascii ''identitas'', JObj
                [(ascii ''nama'', JStr (ascii ''Web Dev'')),
                 (ascii ''kode'', JStr (ascii ''BOOT-1700000000000'')),
                 (ascii ''durasi'', JNum (Finite 8)),
                 (ascii ''tipe'', JStr (ascii ''Hybrid'')),
                 (ascii ''level'', JStr (ascii ''Beginner'')),
                 (ascii ''kapasitas'', JNum (Finite 25))]),
             (ascii ''id'', JStr (ascii ''boot-1700000000000'')),
             (ascii ''createdAt'', JStr (ascii ''2023-11-14T22:13:20.000Z'')),
             (ascii ''updatedAt'', JStr (ascii ''2023-11-14T22:13:20.000Z''))])]))]"
    by (simp add: success_def sim_def start_def without_def sim_read_def ecma_sample_def decimal_clock ascii_def
        web_dev_request_def web_dev_body_def script_writes_def sample_jsonPath_def modules_text_def)
  from t [where cmd = sample_express_cmd and ctx = "[]", THEN conjunct2, THEN mp, OF e]
  have re: "responses (trace (snd (express_generate_bootcamp ?P web_dev_request (start [])))) =
       [(200, JsonBody (JObj [(ascii ''success'', JBool True),
          (ascii ''data'', JObj
            [(ascii ''modules'', JArr []),
             (ascii ''identitas'', JObj
                [(ascii ''nama'', JStr (ascii ''Web Dev'')),
                 (ascii ''kode'', JStr (ascii ''BOOT-000000'')),
                 (ascii ''durasi'', JNum (Finite 8)),
                 (ascii ''tipe'', JStr (ascii ''Hybrid'')),
                 (ascii ''level'', JStr (ascii ''Beginner'')),
                 (ascii ''kapasitas'', JNum (Finite 25))]),
             (ascii ''id'', JStr (ascii ''boot-1700000000000'')),
             (ascii ''createdAt'', JStr (ascii ''2023-11-14T22:13:20.000Z'')),
             (ascii ''updatedAt'', JStr (ascii ''2023-11-14T22:13:20.000Z''))])]))]"
    by (simp add: success_def slice_last6_def sim_def start_def without_def sim_read_def ecma_sample_def decimal_clock ascii_def
        web_dev_request_def web_dev_body_def script_writes_def sample_jsonPath_def modules_text_def)
  from n rn e re show ?thesis
    by (intro conjI)
qed


section \<open>Temporary files\<close>

text \<open>
  Claim C4, as stated, fails on a request that fails: a convert request whose
  subprocess fails is answered with status 500, and the input file written for it is
  still there after the response; no unlink was attempted.
\<close>

theorem convert_failure_leaves_file_counterexample:
  "express_convert_to_docx (sim script_fails) convert_request (start []) =
     (Returned,
      \<lparr>world = [(sample_jsonPath, JSON_stringify ecma_sample (body convert_request))],
       ticks = 1,
       trace =
         [WriteFile sample_jsonPath (JSON_stringify ecma_sample (body convert_request)),
          Exec (convert_pythonCmd (sim script_fails) sample_jsonPath sample_docxPath) 60000,
          Respond 500 (JsonBody (failure (ascii ''Command failed'')))]\<rparr>)"
  by (simp add: and_then_def try_catch_def res_json_def emit_def return_void_def Date_now_def sys_def sys_read_def lift_def ret_def throw_def template_def sum_bind_def join_with_def quoted_def Let_def
      sim_def start_def without_def sim_read_def ecma_sample_def decimal_clock ascii_def
      express_convert_to_docx_def convert_pythonCmd_def convert_jsonPath_def convert_docxPath_def python_exe_def failure_def message_or_unknown_def
      convert_request_def script_fails_def sample_jsonPath_def sample_docxPath_def)

text \<open>
  Claim C4, amended. For every request to either endpoint that completes normally,
  the temporary files of the request are unlinked after they have been read and
  before the response is sent: the generator's output file in both variants of the
  generate endpoint, the converter's input JSON and output DOCX files in the convert
  endpoint. What an unlink returns is ignored: the events and the response are the
  same whether it fails or not, and the run goes on in the world the unlink left.
\<close>

theorem temp_files_unlinked_on_success:
  "(next_completes_normally P req s wm cmd streams wx jsonData parsed
      \<and> \<not> rejects_props True parsed \<longrightarrow>
      (\<exists>r. trace (snd (handler P req s)) =
         trace s @
         [Mkdir (next_tempDir P), Exec cmd 300000,
          ReadFile (next_outputPath P (clock P (ticks s))),
          Unlink (next_outputPath P (clock P (ticks s))),
          Respond 200 r])
      \<and> world (snd (handler P req s)) =
          snd (fs_unlink P (next_outputPath P (clock P (ticks s))) wx))
   \<and> (express_completes_normally P req s wm ctx cmd streams wx jsonData parsed
      \<and> \<not> rejects_props False parsed \<longrightarrow>
      (\<exists>r. trace (snd (express_generate_bootcamp P req s)) =
         trace s @
         [Mkdir (express_tempDir P), Exec cmd 300000,
          Access (express_outputPath P (clock P (ticks s))),
          ReadFile (express_outputPath P (clock P (ticks s))),
          Unlink (express_outputPath P (clock P (ticks s))),
          Respond 200 r])
      \<and> world (snd (express_generate_bootcamp P req s)) =
          snd (fs_unlink P (express_outputPath P (clock P (ticks s))) wx))
   \<and> (convert_completes_normally P req s wm streams wx docxBuffer \<longrightarrow>
      trace (snd (express_convert_to_docx P req s)) =
         trace s @
         [WriteFile (convert_jsonPath P (clock P (ticks s)))
            (JSON_stringify (builtins P) (body req)),
          Exec (convert_pythonCmd P (convert_jsonPath P (clock P (ticks s)))
                  (convert_docxPath P (clock P (ticks s)))) 60000,
          ReadFile (convert_docxPath P (clock P (ticks s))),
          Unlink (convert_jsonPath P (clock P (ticks s))),
          Unlink (convert_docxPath P (clock P (ticks s))),
          SetHeader (ascii ''Content-Type'') (ascii
            ''application/vnd.openxmlformats-officedocument.wordprocessingml.document''),
          SetHeader (ascii ''Content-Disposition'')
            (ascii ''attachment; filename='' @ quoted (ascii ''bootcamp_curriculum.docx'')),
          Respond 200 (BufferBody docxBuffer)]
      \<and> world (snd (express_convert_to_docx P req s)) =
          snd (fs_unlink P (convert_docxPath P (clock P (ticks s)))
                 (snd (fs_unlink P (convert_jsonPath P (clock P (ticks s))) wx))))"
proof (intro conjI impI)
  assume "next_completes_normally P req s wm cmd streams wx jsonData parsed
          \<and> \<not> rejects_props True parsed"
  then have run: "handler P req s =
     (Returned,
      s\<lparr>world := snd (fs_unlink P (next_outputPath P (clock P (ticks s))) wx),
        ticks := ticks s + 5,
        trace := trace s @
         [Mkdir (next_tempDir P), Exec cmd 300000,
          ReadFile (next_outputPath P (clock P (ticks s))),
          Unlink (next_outputPath P (clock P (ticks s))),
          Respond 200 (JsonBody (success
            (with_prop (with_prop (with_prop (with_prop parsed
               (ascii ''identitas'')
               (next_identitas (get_prop (body req) (ascii ''nama''))
                  (get_prop (body req) (ascii ''durasi''))
                  (get_prop (body req) (ascii ''level'')) (clock P (ticks s + 1))))
               (ascii ''id'') (JStr (ascii ''boot-'' @ decimal (clock P (ticks s + 2)))))
               (ascii ''createdAt'') (JStr (toISOString P (clock P (ticks s + 3)))))
               (ascii ''updatedAt'') (JStr (toISOString P (clock P (ticks s + 4)))))))]\<rparr>)"
    by (blast intro: next_success_run)
  show "\<exists>r. trace (snd (handler P req s)) =
         trace s @
         [Mkdir (next_tempDir P), Exec cmd 300000,
          ReadFile (next_outputPath P (clock P (ticks s))),
          Unlink (next_outputPath P (clock P (ticks s))),
          Respond 200 r]"
    by (simp add: run)
  show "world (snd (handler P req s)) =
          snd (fs_unlink P (next_outputPath P (clock P (ticks s))) wx)"
    by (simp add: run)
next
  assume "express_completes_normally P req s wm ctx cmd streams wx jsonData parsed
          \<and> \<not> rejects_props False parsed"
  then have run: "express_generate_bootcamp P req s =
     (Returned,
      s\<lparr>world := snd (fs_unlink P (express_outputPath P (clock P (ticks s))) wx),
        ticks := ticks s + 5,
        trace := trace s @
         [Mkdir (express_tempDir P), Exec cmd 300000,
          Access (express_outputPath P (clock P (ticks s))),
          ReadFile (express_outputPath P (clock P (ticks s))),
          Unlink (express_outputPath P (clock P (ticks s))),
          Respond 200 (JsonBody (success
            (with_prop (with_prop (with_prop (with_prop parsed
               (ascii ''identitas'')
               (express_identitas (get_prop (body req) (ascii ''nama''))
                  (get_prop (body req) (ascii ''durasi''))
                  (get_prop (body req) (ascii ''level'')) (clock P (ticks s + 1))))
               (ascii ''id'') (JStr (ascii ''boot-'' @ decimal (clock P (ticks s + 2)))))
               (ascii ''createdAt'') (JStr (toISOString P (clock P (ticks s + 3)))))
               (ascii ''updatedAt'') (JStr (toISOString P (clock P (ticks s + 4)))))))]\<rparr>)"
    by (blast intro: express_success_run)
  show "\<exists>r. trace (snd (express_generate_bootcamp P req s)) =
         trace s @
         [Mkdir (express_tempDir P), Exec cmd 300000,
          Access (express_outputPath P (clock P (ticks s))),
          ReadFile (express_outputPath P (clock P (ticks s))),
          Unlink (express_outputPath P (clock P (ticks s))),
          Respond 200 r]"
    by (simp add: run)
  show "world (snd (express_generate_bootcamp P req s)) =
          snd (fs_unlink P (express_outputPath P (clock P (ticks s))) wx)"
    by (simp add: run)
next
  assume c: "convert_completes_normally P req s wm streams wx docxBuffer"
  show "trace (snd (express_convert_to_docx P req s)) =
         trace s @
         [WriteFile (convert_jsonPath P (clock P (ticks s)))
            (JSON_stringify (builtins P) (body req)),
          Exec (convert_pythonCmd P (convert_jsonPath P (clock P (ticks s)))
                  (convert_docxPath P (clock P (ticks s)))) 60000,
          ReadFile (convert_docxPath P (clock P (ticks s))),
          Unlink (convert_jsonPath P (clock P (ticks s))),
          Unlink (convert_docxPath P (clock P (ticks s))),
          SetHeader (ascii ''Content-Type'') (ascii
            ''application/vnd.openxmlformats-officedocument.wordprocessingml.document''),
          SetHeader (ascii ''Content-Disposition'')
            (ascii ''attachment; filename='' @ quoted (ascii ''bootcamp_curriculum.docx'')),
          Respond 200 (BufferBody docxBuffer)]"
    by (simp add: convert_success_run [OF c])
  show "world (snd (express_convert_to_docx P req s)) =
          snd (fs_unlink P (convert_docxPath P (clock P (ticks s)))
                 (snd (fs_unlink P (convert_jsonPath P (clock P (ticks s))) wx)))"
    by (simp add: convert_success_run [OF c])
qed

theorem temp_files_unlinked_on_success_witness:
  "next_completes_normally (sim (script_writes sample_jsonPath modules_text)) web_dev_request
     (start []) [] sample_next_cmd ([], []) [(sample_jsonPath, modules_text)] modules_text
     (JObj [(ascii ''modules'', JArr [])])
   \<and> world (snd (handler (sim (script_writes sample_jsonPath modules_text))
                     web_dev_request (start []))) = []
   \<and> express_completes_normally (sim (script_writes sample_jsonPath modules_text))
       web_dev_request (start []) [] [] sample_express_cmd ([], [])
       [(sample_jsonPath, modules_text)] modules_text (JObj [(ascii ''modules'', JArr [])])
   \<and> world (snd (express_generate_bootcamp (sim (script_writes sample_jsonPath modules_text))
                     web_dev_request (start []))) = []
   \<and> convert_completes_normally (sim (script_writes sample_docxPath (ascii ''PK'')))
       convert_request (start [])
       [(sample_jsonPath, JSON_stringify ecma_sample (body convert_request))] ([], [])
       [(sample_docxPath, ascii ''PK''),
        (sample_jsonPath, JSON_stringify ecma_sample (body convert_request))]
       [0x50, 0x4B]
   \<and> world (snd (express_convert_to_docx (sim (script_writes sample_docxPath (ascii ''PK'')))
                     convert_request (start []))) = []"
proof -
  let ?P = "sim (script_writes sample_jsonPath modules_text)"
  let ?Q = "sim (script_writes sample_docxPath (ascii ''PK''))"
  let ?jsonData = "JSON_stringify ecma_sample (body convert_request)"
  have n: "next_completes_normally ?P web_dev_request (start []) [] sample_next_cmd ([], [])
             [(sample_jsonPath, modules_text)] modules_text (JObj [(ascii ''modules'', JArr [])])
           \<and> \<not> rejects_props True (JObj [(ascii ''modules'', JArr [])])"
    by (simp add: next_completes_normally_def sample_next_cmd_def
        and_then_def try_catch_def res_json_def emit_def return_void_def Date_now_def sys_def sys_read_def lift_def ret_def throw_def template_def sum_bind_def join_with_def quoted_def Let_def
        sim_def start_def without_def sim_read_def ecma_sample_def decimal_clock ascii_def
        web_dev_request_def web_dev_body_def script_writes_def sample_jsonPath_def modules_text_def
        handler_def next_outputPath_def next_tempDir_def next_pythonCmd_def next_identitas_def success_def failure_def assign_prop_def)
  have e: "express_completes_normally ?P web_dev_request (start []) [] [] sample_express_cmd
             ([], []) [(sample_jsonPath, modules_text)] modules_text
             (JObj [(ascii ''modules'', JArr [])])
           \<and> \<not> rejects_props False (JObj [(ascii ''modules'', JArr [])])"
    by (simp add: express_completes_normally_def sample_express_cmd_def
        and_then_def try_catch_def res_json_def emit_def return_void_def Date_now_def sys_def sys_read_def lift_def ret_def throw_def template_def sum_bind_def join_with_def quoted_def Let_def
        sim_def start_def without_def sim_read_def ecma_sample_def decimal_clock ascii_def
        web_dev_request_def web_dev_body_def script_writes_def sample_jsonPath_def modules_text_def
        express_generate_bootcamp_def express_outputPath_def express_tempDir_def express_pythonCmd_def express_identitas_def success_def failure_def assign_prop_def express_context_def python_exe_def slice_last6_def message_or_unknown_def)
  have c: "convert_completes_normally ?Q convert_request (start [])
             [(sample_jsonPath, ?jsonData)] ([], [])
             [(sample_docxPath, ascii ''PK''), (sample_jsonPath, ?jsonData)] [0x50, 0x4B]"
    by (simp add: convert_completes_normally_def
        and_then_def try_catch_def res_json_def emit_def return_void_def Date_now_def sys_def sys_read_def lift_def ret_def throw_def template_def sum_bind_def join_with_def quoted_def Let_def
        sim_def start_def without_def sim_read_def ecma_sample_def decimal_clock ascii_def
        express_convert_to_docx_def convert_pythonCmd_def convert_jsonPath_def convert_docxPath_def python_exe_def failure_def message_or_unknown_def
        convert_request_def script_writes_def sample_jsonPath_def sample_docxPath_def)
  from temp_files_unlinked_on_success [where P = ?P, THEN conjunct1, THEN mp, OF n]
  have wn: "world (snd (handler ?P web_dev_request (start []))) = []"
    by (simp add: sim_def start_def without_def sim_read_def ecma_sample_def decimal_clock ascii_def
        web_dev_request_def web_dev_body_def script_writes_def sample_jsonPath_def modules_text_def
        next_outputPath_def join_with_def)
  from temp_files_unlinked_on_success
    [where P = ?P, THEN conjunct2, THEN conjunct1, THEN mp, OF e]
  have we: "world (snd (express_generate_bootcamp ?P web_dev_request (start []))) = []"
    by (simp add: sim_def start_def without_def sim_read_def ecma_sample_def decimal_clock ascii_def
        web_dev_request_def web_dev_body_def script_writes_def sample_jsonPath_def modules_text_def
        express_outputPath_def join_with_def)
  from temp_files_unlinked_on_success
    [where P = ?Q, THEN conjunct2, THEN conjunct2, THEN mp, OF c]
  have wc: "world (snd (express_convert_to_docx ?Q convert_request (start []))) = []"
    by (simp add: sim_def start_def without_def sim_read_def ecma_sample_def decimal_clock ascii_def
        convert_request_def script_writes_def sample_jsonPath_def sample_docxPath_def
        convert_jsonPath_def convert_docxPath_def join_with_def)
  from n e c wn we wc show ?thesis
    by simp
qed

end
